theory Spec2Isabelle
  imports Complex_Main
begin

section \<open>The enrichment pipeline of \<open>fix_orphans_and_enrich.py\<close>\<close>

text \<open>
  The development follows \<open>src/fix_orphans_and_enrich.py\<close>. Python's \<open>None\<close> is
  \<open>None\<close> of an option type, a truthiness test \<open>x or None\<close> is written out for the
  type of \<open>x\<close>, an exception is the \<open>Inl\<close> of a sum, and the SQLite store is a record
  of tables, with the uniqueness constraints that its tables have written into the insert
  operations.
\<close>

subsection \<open>Utility: \<open>metascore_color\<close>\<close>

text \<open>
  \<open>metascore_color(score: Optional[int])\<close>. For an \<open>int\<close> argument \<open>int(score)\<close> is the
  argument itself and never raises, so the \<open>try\<close> has no failing branch here.
\<close>

definition metascore_color :: "int option \<Rightarrow> string option" where
  "metascore_color score =
     (case score of
        None \<Rightarrow> None
      | Some s \<Rightarrow>
          if 75 \<le> s \<and> s \<le> 100 then Some ''green''
          else if 50 \<le> s \<and> s \<le> 74 then Some ''yellow''
          else if 0 \<le> s \<and> s \<le> 49 then Some ''red''
          else None)"

subsection \<open>Strings\<close>

text \<open>\<open>s.startswith(p)\<close>.\<close>

fun starts_with :: "string \<Rightarrow> string \<Rightarrow> bool" where
  "starts_with [] s = True"
| "starts_with (p # ps) [] = False"
| "starts_with (p # ps) (c # cs) = (p = c \<and> starts_with ps cs)"

text \<open>\<open>sub in s\<close>.\<close>

fun contains_str :: "string \<Rightarrow> string \<Rightarrow> bool" where
  "contains_str sub [] = (sub = [])"
| "contains_str sub (c # cs) = (starts_with sub (c # cs) \<or> contains_str sub cs)"

text \<open>\<open>s.split(sep, 1)[1]\<close>: what follows the first occurrence of \<open>sep\<close>. Without an
  occurrence the split has one element and the index raises IndexError: None.\<close>

fun split_once_after :: "string \<Rightarrow> string \<Rightarrow> string option" where
  "split_once_after sep [] = (if sep = [] then Some [] else None)"
| "split_once_after sep (c # cs) =
     (if starts_with sep (c # cs) then Some (drop (length sep) (c # cs))
      else split_once_after sep cs)"

text \<open>\<open>s.split(d)\<close> for a separator of one character: never the empty list.\<close>

fun split_char :: "char \<Rightarrow> string \<Rightarrow> string list" where
  "split_char d [] = [[]]"
| "split_char d (c # cs) =
     (if c = d then [] # split_char d cs
      else (case split_char d cs of
              p # ps \<Rightarrow> (c # p) # ps
            | [] \<Rightarrow> [[c]]))"

text \<open>\<open>sep.join(parts)\<close>.\<close>

fun join :: "string \<Rightarrow> string list \<Rightarrow> string" where
  "join sep [] = []"
| "join sep [p] = p"
| "join sep (p # q # ps) = p @ sep @ join sep (q # ps)"

text \<open>\<open>parts.index(x)\<close>: the first position of \<open>x\<close>; None is the ValueError.\<close>

fun index_of :: "'a \<Rightarrow> 'a list \<Rightarrow> nat option" where
  "index_of x [] = None"
| "index_of x (y # ys) = (if y = x then Some 0 else map_option Suc (index_of x ys))"

subsection \<open>Image URL normalizer: \<open>normalize_rawg_image\<close>\<close>

definition MEDIA_PREFIX :: string where
  "MEDIA_PREFIX = ''https://media.rawg.io/media/''"

text \<open>
  \<open>not url\<close> holds for None and for the empty string. The index \<open>[1]\<close> after the split
  cannot raise, since a string that contains \<open>MEDIA_PREFIX\<close> contains \<open>/media/\<close>
  (lemma \<open>split_once_after_media\<close>); the branch of the model for it returns the
  argument. \<open>parts\<close> is never empty, so \<open>parts and parts[0] in (...)\<close> reads \<open>hd parts\<close>.
\<close>

definition normalize_rawg_image :: "string option \<Rightarrow> string option" where
  "normalize_rawg_image url =
     (case url of
        None \<Rightarrow> None
      | Some u \<Rightarrow>
          if u = [] \<or> \<not> contains_str MEDIA_PREFIX u then Some u
          else
            (case split_once_after ''/media/'' u of
               None \<Rightarrow> Some u
             | Some tail \<Rightarrow>
                 (let parts = split_char CHR ''/'' tail;
                      tail' =
                        (if parts \<noteq> [] \<and> hd parts \<in> {''crop'', ''resize''}
                         then (case index_of ''games'' parts of
                                 Some gi \<Rightarrow> join ''/'' (drop gi parts)
                               | None \<Rightarrow> join ''/'' parts)
                         else tail)
                  in Some (MEDIA_PREFIX @ tail'))))"

text \<open>
  The rewrite that \<open>normalize_rawg_image\<close> applies to the tail, named on its own for
  the proofs (lemma \<open>normalize_prefixed\<close> relates the two).
\<close>

definition norm_tail :: "string \<Rightarrow> string" where
  "norm_tail tail =
     (let parts = split_char CHR ''/'' tail
      in if parts \<noteq> [] \<and> hd parts \<in> {''crop'', ''resize''}
         then (case index_of ''games'' parts of
                 Some gi \<Rightarrow> join ''/'' (drop gi parts)
               | None \<Rightarrow> join ''/'' parts)
         else tail)"

subsection \<open>The store\<close>

text \<open>
  One row of \<open>games\<close> without its \<open>id INTEGER PRIMARY KEY\<close>, which the table below
  pairs it with; the other columns are nullable. \<open>rating\<close> is a \<open>REAL\<close> column that the pipeline only
  stores and tests against zero.
\<close>

record game_row =
  g_slug :: "string option"
  g_name :: "string option"
  g_released :: "string option"
  g_rating :: "real option"
  g_description :: "string option"
  g_website :: "string option"
  g_age_rating :: "string option"
  g_cover_image :: "string option"
  g_metascore_number :: "int option"
  g_metascore_color :: "string option"

text \<open>A row of \<open>media\<close>: \<open>UNIQUE(game_id, type, url)\<close>.\<close>

record media_row =
  m_game_id :: int
  m_type :: string
  m_url :: string
  m_preview_url :: "string option"
  m_position :: "int option"

text \<open>A row of \<open>stores\<close>: \<open>id\<close> is the primary key, \<open>slug\<close> has a unique index.\<close>

record store_row =
  st_id :: int
  st_name :: "string option"
  st_slug :: "string option"
  st_domain :: "string option"

text \<open>A row of \<open>game_suggestions\<close>: \<open>UNIQUE(game_id, position)\<close>.\<close>

record suggestion_row =
  sg_game_id :: int
  sg_position :: int
  sg_suggested_id :: "int option"
  sg_name :: "string option"
  sg_image_url :: "string option"
  sg_platforms_csv :: "string option"
  sg_metascore_number :: "int option"
  sg_metascore_color :: "string option"
  sg_released :: "string option"
  sg_genres_csv :: "string option"

text \<open>
  The connection's database. A table is the list of its rows in insertion order, so that
  a row count is a \<open>length\<close>; the autoincrement \<open>id\<close> columns, which nothing reads,
  are left out.

  \<open>ensure_schema\<close> reads and alters \<open>games\<close>, so the table exists before it runs, and
  its \<open>CREATE TABLE IF NOT EXISTS\<close> leaves a table that exists as it is. The scripts of
  the repository that create \<open>games\<close>, \<open>db_prepare.py\<close> and \<open>db_prepare_BEFORE.py\<close>,
  create some of the link tables too, with other declarations. The store therefore
  carries, for the tables that differ, which declaration it has:
  \<^item> \<open>name_link_columns\<close>: \<open>game_developers\<close>, \<open>game_publishers\<close> and \<open>game_tags\<close> have
    the text column \<open>developer\<close>, \<open>publisher\<close>, \<open>tag\<close> with the primary key over both
    columns (\<open>ensure_schema\<close>, \<open>db_prepare_BEFORE.py\<close>); \<open>db_prepare.py\<close> declares
    \<open>developer_id\<close>, \<open>publisher_id\<close>, \<open>tag_id\<close> instead;
  \<^item> \<open>vocabulary_names_unique\<close>: \<open>genres.name\<close> and \<open>platforms.name\<close> are \<open>UNIQUE\<close>
    (\<open>ensure_schema\<close> only);
  \<^item> \<open>related_links_keyed\<close>: \<open>game_series_links\<close> and \<open>game_additions_links\<close> have
    \<open>PRIMARY KEY (game_id, name, url)\<close> (\<open>ensure_schema\<close> only; both other scripts
    declare an autoincrement \<open>id\<close> and no uniqueness).
  The tables \<open>media\<close>, \<open>stores\<close>, \<open>game_stores\<close> and \<open>game_suggestions\<close> are created by
  \<open>ensure_schema\<close> alone, and \<open>game_genres\<close> and \<open>game_platforms\<close> have the same key
  everywhere.
\<close>

record schema =
  name_link_columns :: bool
  vocabulary_names_unique :: bool
  related_links_keyed :: bool

definition ensure_schema_tables :: schema where
  "ensure_schema_tables =
     \<lparr>name_link_columns = True, vocabulary_names_unique = True,
      related_links_keyed = True\<rparr>"

definition db_prepare_BEFORE_tables :: schema where
  "db_prepare_BEFORE_tables =
     \<lparr>name_link_columns = True, vocabulary_names_unique = False,
      related_links_keyed = False\<rparr>"

definition db_prepare_tables :: schema where
  "db_prepare_tables =
     \<lparr>name_link_columns = False, vocabulary_names_unique = False,
      related_links_keyed = False\<rparr>"

record db =
  tables :: schema
  games :: "(int \<times> game_row) list"
  game_developers :: "(int \<times> string) list"
  game_publishers :: "(int \<times> string) list"
  game_tags :: "(int \<times> string) list"
  game_series_links :: "(int \<times> string \<times> string) list"
  game_additions_links :: "(int \<times> string \<times> string) list"
  screenshots :: "(int \<times> string) list"
  genres :: "(int \<times> string) list"
  game_genres :: "(int \<times> int) list"
  platforms :: "(int \<times> string) list"
  game_platforms :: "(int \<times> int) list"
  media :: "media_row list"
  stores :: "store_row list"
  game_stores :: "(int \<times> int \<times> string option) list"
  game_suggestions :: "suggestion_row list"

text \<open>\<open>SELECT ... FROM games WHERE id = ?\<close> followed by \<open>fetchone()\<close>.\<close>

definition select_game :: "db \<Rightarrow> int \<Rightarrow> game_row option" where
  "select_game conn gid = map_of (games conn) gid"

text \<open>\<open>UPDATE games SET ... WHERE id = ?\<close>, the assignments as a function of the old
  row.\<close>

definition update_game :: "db \<Rightarrow> int \<Rightarrow> (game_row \<Rightarrow> game_row) \<Rightarrow> db" where
  "update_game conn gid f =
     conn\<lparr>games := map (\<lambda>(k, row). if k = gid then (k, f row) else (k, row)) (games conn)\<rparr>"

text \<open>SQL \<open>COALESCE(a, b)\<close> on two values: the first that is not NULL.\<close>

definition coalesce :: "'a option \<Rightarrow> 'a option \<Rightarrow> 'a option" where
  "coalesce a b = (case a of Some v \<Rightarrow> Some v | None \<Rightarrow> b)"

text \<open>\<open>COALESCE(col, '') = ''\<close>.\<close>

definition coalesce_is_empty :: "string option \<Rightarrow> bool" where
  "coalesce_is_empty col = ((case col of None \<Rightarrow> '''' | Some v \<Rightarrow> v) = '''')"

text \<open>\<open>SELECT 1 FROM t WHERE game_id = ? LIMIT 1\<close> followed by \<open>fetchone() is None\<close>,
  on the list of the \<open>game_id\<close> column.\<close>

definition fetchone_is_None :: "int list \<Rightarrow> int \<Rightarrow> bool" where
  "fetchone_is_None game_ids gid = (filter (\<lambda>k. k = gid) game_ids = [])"

text \<open>Python's \<open>any\<close> on a list of booleans.\<close>

definition any_py :: "bool list \<Rightarrow> bool" where
  "any_py bs = list_ex (\<lambda>b. b) bs"

subsection \<open>Completeness oracle: \<open>needs_enrich\<close>\<close>

definition needs_enrich :: "db \<Rightarrow> int \<Rightarrow> bool" where
  "needs_enrich conn gid =
     (case select_game conn gid of
        None \<Rightarrow> True
      | Some row \<Rightarrow>
          (let no_about = coalesce_is_empty (g_description row);
               no_site = coalesce_is_empty (g_website row);
               no_age = coalesce_is_empty (g_age_rating row);
               no_cover = coalesce_is_empty (g_cover_image row);
               no_devs = fetchone_is_None (map fst (game_developers conn)) gid;
               no_pubs = fetchone_is_None (map fst (game_publishers conn)) gid;
               no_tags = fetchone_is_None (map fst (game_tags conn)) gid;
               no_series = fetchone_is_None (map fst (game_series_links conn)) gid;
               no_adds = fetchone_is_None (map fst (game_additions_links conn)) gid;
               no_genres = fetchone_is_None (map fst (game_genres conn)) gid;
               no_platforms = fetchone_is_None (map fst (game_platforms conn)) gid;
               no_stores = fetchone_is_None (map fst (game_stores conn)) gid
           in any_py [no_about, no_site, no_age, no_cover,
                      no_devs, no_pubs, no_tags, no_series, no_adds,
                      no_genres, no_platforms, no_stores]))"

subsection \<open>Upstream payloads\<close>

text \<open>
  The JSON objects of the upstream API, with the keys the pipeline reads. A key that is
  absent and a key whose value is \<open>null\<close> are both None, as \<open>dict.get\<close> returns. A
  list that the code reads as \<open>x.get(k) or []\<close> is the list after that default.
\<close>

record named_j =
  nj_name :: "string option"

record idname_j =
  ij_id :: "int option"
  ij_name :: "string option"

record platform_entry_j =
  pe_platform :: "idname_j option"

record store_obj_j =
  so_id :: "int option"
  so_name :: "string option"
  so_slug :: "string option"
  so_domain :: "string option"

record store_entry_j =
  se_id :: "int option"
  se_url :: "string option"
  se_store :: "store_obj_j option"

record esrb_j =
  es_name :: "string option"

text \<open>An entry of \<open>short_screenshots\<close> may itself be \<open>null\<close> (\<open>s or {}\<close>).\<close>

record short_shot_j =
  ss_image :: "string option"

record details =
  d_id :: int
  d_slug :: "string option"
  d_name :: "string option"
  d_released :: "string option"
  d_rating :: "real option"
  d_metacritic :: "int option"
  d_description_raw :: "string option"
  d_website :: "string option"
  d_esrb_rating :: "esrb_j option"
  d_background_image :: "string option"
  d_background_image_additional :: "string option"
  d_short_screenshots :: "short_shot_j option list"
  d_developers :: "named_j list"
  d_publishers :: "named_j list"
  d_tags :: "named_j list"
  d_genres :: "idname_j list"
  d_platforms :: "platform_entry_j list"
  d_stores :: "store_entry_j list"

subsection \<open>Python values\<close>

text \<open>
  The exceptions that leave a function: of the request (\<open>raise_for_status\<close>, and
  \<open>requests.get\<close> itself), and of \<open>sqlite3\<close> (a Python integer outside the signed
  64-bit range bound to a parameter, a statement that names a missing column).
\<close>

datatype error = HTTPError nat | RequestError | OverflowError | OperationalError

text \<open>What \<open>sqlite3\<close> can bind as an \<open>INTEGER\<close>.\<close>

definition fits_int64 :: "int \<Rightarrow> bool" where
  "fits_int64 i = (- (2 ^ 63) \<le> i \<and> i < 2 ^ 63)"

definition opt_fits_int64 :: "int option \<Rightarrow> bool" where
  "opt_fits_int64 x = (case x of None \<Rightarrow> True | Some i \<Rightarrow> fits_int64 i)"

text \<open>\<open>x or None\<close> on an optional string, and on an optional number.\<close>

definition or_None :: "string option \<Rightarrow> string option" where
  "or_None x = (case x of None \<Rightarrow> None | Some v \<Rightarrow> if v = [] then None else Some v)"

definition or_None_num :: "'a::zero option \<Rightarrow> 'a option" where
  "or_None_num x = (case x of None \<Rightarrow> None | Some v \<Rightarrow> if v = 0 then None else Some v)"

text \<open>\<open>str(n)\<close> for an integer: its decimal digits, with a sign.\<close>

function str_nat :: "nat \<Rightarrow> string" where
  "str_nat n =
     (if n < 10 then [char_of (48 + n)]
      else str_nat (n div 10) @ [char_of (48 + n mod 10)])"
  by pat_completeness auto
termination
  by (relation "measure (\<lambda>n. n)") auto

definition str_int :: "int \<Rightarrow> string" where
  "str_int i = (if i < 0 then CHR ''-'' # str_nat (nat (- i)) else str_nat (nat i))"

subsection \<open>Cover choice: \<open>choose_cover_from\<close>\<close>

text \<open>The first short screenshot with a non-empty image, for the second loop.\<close>

fun first_short_image :: "short_shot_j option list \<Rightarrow> string option" where
  "first_short_image [] = None"
| "first_short_image (s # rest) =
     (case or_None (case s of None \<Rightarrow> None | Some d \<Rightarrow> ss_image d) of
        Some img \<Rightarrow> Some img
      | None \<Rightarrow> first_short_image rest)"

definition choose_cover_from :: "details \<Rightarrow> string option" where
  "choose_cover_from details =
     (case or_None (d_background_image details) of
        Some v \<Rightarrow> normalize_rawg_image (Some v)
      | None \<Rightarrow>
          (case or_None (d_background_image_additional details) of
             Some v \<Rightarrow> normalize_rawg_image (Some v)
           | None \<Rightarrow>
               (case first_short_image (d_short_screenshots details) of
                  Some img \<Rightarrow> normalize_rawg_image (Some img)
                | None \<Rightarrow> None)))"

subsection \<open>Item upsert: \<open>upsert_game_core\<close>\<close>

text \<open>
  \<open>INSERT OR IGNORE INTO games (id, slug, name, released, rating)\<close>: the row is added
  when no row has this primary key, its other columns NULL.
\<close>

definition insert_or_ignore_game ::
  "db \<Rightarrow> int \<Rightarrow> string \<Rightarrow> string \<Rightarrow> string option \<Rightarrow> real option \<Rightarrow> db" where
  "insert_or_ignore_game conn gid slug name released rating =
     (case select_game conn gid of
        Some row \<Rightarrow> conn
      | None \<Rightarrow>
          conn\<lparr>games := games conn @
            [(gid, \<lparr>g_slug = Some slug, g_name = Some name, g_released = released,
               g_rating = rating, g_description = None, g_website = None,
               g_age_rating = None, g_cover_image = None, g_metascore_number = None,
               g_metascore_color = None\<rparr>)]\<rparr>)"

text \<open>
  The body, statement by statement. The \<open>UPDATE\<close> sets every column to
  \<open>COALESCE(?, column)\<close>: the bound parameter when it is not NULL, the stored value
  otherwise, on the rows of \<open>details["id"]\<close>.

  The \<open>INSERT\<close> binds the id and the \<open>UPDATE\<close> the metascore and the id: an integer
  outside the 64-bit range raises \<open>OverflowError\<close> there. No caller catches it, the run
  ends before \<open>conn.commit()\<close>, and a row that the \<open>INSERT\<close> had added is rolled back
  with the transaction: the store stays as it was.
\<close>

definition upsert_game_core :: "db \<Rightarrow> details \<Rightarrow> error + db" where
  "upsert_game_core conn details =
     (let gid = d_id details;
          slug = (case or_None (d_slug details) of Some v \<Rightarrow> v | None \<Rightarrow> str_int gid);
          name = (case or_None (d_name details) of Some v \<Rightarrow> v | None \<Rightarrow> slug);
          released = or_None (d_released details);
          rating = or_None_num (d_rating details);
          mscore = d_metacritic details;
          mcolor = metascore_color mscore;
          conn1 = insert_or_ignore_game conn gid slug name released rating;
          about = or_None (d_description_raw details);
          website = or_None (d_website details);
          age = or_None (case d_esrb_rating details of None \<Rightarrow> None | Some e \<Rightarrow> es_name e);
          cover = choose_cover_from details
      in if \<not> fits_int64 gid then Inl OverflowError
         else if \<not> opt_fits_int64 mscore then Inl OverflowError
         else
           Inr (update_game conn1 gid
             (\<lambda>row.
                row\<lparr>g_description := coalesce about (g_description row),
                    g_website := coalesce website (g_website row),
                    g_age_rating := coalesce age (g_age_rating row),
                    g_cover_image := coalesce cover (g_cover_image row),
                    g_released := coalesce released (g_released row),
                    g_rating := coalesce rating (g_rating row),
                    g_slug := coalesce (Some slug) (g_slug row),
                    g_name := coalesce (Some name) (g_name row),
                    g_metascore_number := coalesce mscore (g_metascore_number row),
                    g_metascore_color := coalesce mcolor (g_metascore_color row)\<rparr>)))"

subsection \<open>Transport client: \<open>_rawg_get\<close>\<close>

text \<open>
  What one \<open>requests.get\<close> comes back with: a status code and the body as \<open>r.json()\<close>
  parses it (None when parsing raises), or no response at all (\<open>requests.get\<close> raises
  on a timeout or a connection error, and nothing catches it).
\<close>

datatype 'a response = Response nat "'a option" | NoResponse

text \<open>\<open>r.raise_for_status()\<close> raises for a status of 400 to 599 and returns otherwise.\<close>

definition raise_for_status :: "nat \<Rightarrow> bool" where
  "raise_for_status status = (400 \<le> status \<and> status < 600)"

text \<open>
  The loop \<open>for attempt in range(1, max_retries + 1)\<close>, with the attempts that are left as
  recursion argument. The server is the response to each attempt of this request. The
  result is the exception (\<open>Inl\<close>) or the returned value, together with the number of GET
  requests issued. The sleeps before a retry change nothing that is observed here.
\<close>

fun rawg_attempts :: "(nat \<Rightarrow> 'a response) \<Rightarrow> nat \<Rightarrow> nat \<Rightarrow> (error + 'a option) \<times> nat" where
  "rawg_attempts server attempt 0 = (Inr None, 0)"
| "rawg_attempts server attempt (Suc left) =
     (case server attempt of
        NoResponse \<Rightarrow> (Inl RequestError, 1)
      | Response status body \<Rightarrow>
          if status = 200 then (Inr body, 1)
          else if status = 404 then (Inr None, 1)
          else if status = 429 \<or> status \<in> {500, 502, 503, 504}
                  \<or> \<not> raise_for_status status
          then (case rawg_attempts server (Suc attempt) left of (res, n) \<Rightarrow> (res, Suc n))
          else (Inl (HTTPError status), 1))"

definition rawg_get :: "(nat \<Rightarrow> 'a response) \<Rightarrow> nat \<Rightarrow> (error + 'a option) \<times> nat" where
  "rawg_get server max_retries = rawg_attempts server 1 max_retries"


subsection \<open>Upstream sub-resources\<close>

text \<open>The envelope of a list endpoint: \<open>results\<close> (after \<open>or []\<close>) and \<open>next\<close>.\<close>

record 'a page_j =
  pg_results :: "'a list"
  pg_next :: "string option"

record screenshot_j =
  sh_image :: "string option"
  sh_width :: "int option"
  sh_height :: "int option"

record movie_data_j =
  md_max :: "string option"
  md_480 :: "string option"

record movie_j =
  mv_data :: "movie_data_j option"
  mv_preview :: "string option"
  mv_name :: "string option"

record link_j =
  lk_name :: "string option"
  lk_slug :: "string option"

record suggested_j =
  su_id :: "int option"
  su_name :: "string option"
  su_background_image :: "string option"
  su_released :: "string option"
  su_metacritic :: "int option"
  su_platforms :: "platform_entry_j list"
  su_genres :: "named_j list"

text \<open>
  The upstream API as the pipeline sees it: for each request, the response to each
  attempt. The screenshots endpoint takes the \<open>page\<close> parameter.
\<close>

record upstream =
  up_details :: "int \<Rightarrow> nat \<Rightarrow> details response"
  up_screenshots :: "int \<Rightarrow> int \<Rightarrow> nat \<Rightarrow> screenshot_j page_j response"
  up_movies :: "int \<Rightarrow> nat \<Rightarrow> movie_j page_j response"
  up_suggested :: "int \<Rightarrow> nat \<Rightarrow> suggested_j page_j response"
  up_game_series :: "int \<Rightarrow> nat \<Rightarrow> link_j page_j response"
  up_additions :: "int \<Rightarrow> nat \<Rightarrow> link_j page_j response"

text \<open>\<open>_rawg_get(...) or {}\<close>: an envelope without results and without \<open>next\<close>.\<close>

definition or_empty_page :: "'a page_j option \<Rightarrow> 'a page_j" where
  "or_empty_page j = (case j of None \<Rightarrow> \<lparr>pg_results = [], pg_next = None\<rparr> | Some p \<Rightarrow> p)"

subsection \<open>Resource crawlers\<close>

definition fetch_details :: "upstream \<Rightarrow> int \<Rightarrow> error + details option" where
  "fetch_details up game_id = fst (rawg_get (up_details up game_id) 3)"

text \<open>
  The inner \<open>for item in results\<close> of \<open>fetch_all_screenshots\<close>: the list \<open>out\<close> after it,
  and whether it left through \<open>return out\<close>.
\<close>

fun scan_results :: "screenshot_j list \<Rightarrow> int \<Rightarrow> screenshot_j list \<Rightarrow> screenshot_j list \<times> bool" where
  "scan_results [] max_images out = (out, False)"
| "scan_results (item # rest) max_images out =
     (case or_None (sh_image item) of
        None \<Rightarrow> scan_results rest max_images out
      | Some img \<Rightarrow>
          (let out' = out @ [\<lparr>sh_image = normalize_rawg_image (Some img),
                               sh_width = sh_width item, sh_height = sh_height item\<rparr>]
           in if max_images \<le> int (length out') then (out', True)
              else scan_results rest max_images out'))"

text \<open>
  The \<open>while True\<close> of \<open>fetch_all_screenshots\<close>. Nothing bounds the number of pages, so
  the loop is a partial function: None is a run that never returns. The last argument
  counts the GET requests issued so far.
\<close>

partial_function (option) screenshots_loop ::
  "(int \<Rightarrow> nat \<Rightarrow> screenshot_j page_j response) \<Rightarrow> int \<Rightarrow> int \<Rightarrow> screenshot_j list \<Rightarrow> nat
     \<Rightarrow> ((error + screenshot_j list) \<times> nat) option" where
  "screenshots_loop server max_images page out n =
     (case rawg_get (server page) 3 of
        (Inl e, k) \<Rightarrow> Some (Inl e, n + k)
      | (Inr r, k) \<Rightarrow>
          (case scan_results (pg_results (or_empty_page r)) max_images out of
             (out', returned) \<Rightarrow>
               if returned then Some (Inr out', n + k)
               else if or_None (pg_next (or_empty_page r)) = None then Some (Inr out', n + k)
               else screenshots_loop server max_images (page + 1) out' (n + k)))"

definition fetch_all_screenshots ::
  "upstream \<Rightarrow> int \<Rightarrow> int \<Rightarrow> ((error + screenshot_j list) \<times> nat) option" where
  "fetch_all_screenshots up game_id max_images =
     screenshots_loop (up_screenshots up game_id) max_images 1 [] 0"

subsection \<open>Table operations\<close>

text \<open>
  \<open>INSERT OR IGNORE\<close> of one row: the row is skipped when it conflicts with a stored row
  on a uniqueness constraint of the table (\<open>conflicts new stored\<close>), appended otherwise.
  \<open>executemany\<close> runs the statement for the rows in order.
\<close>

definition insert_or_ignore :: "('r \<Rightarrow> 'r \<Rightarrow> bool) \<Rightarrow> 'r \<Rightarrow> 'r list \<Rightarrow> 'r list" where
  "insert_or_ignore conflicts row table =
     (if list_ex (conflicts row) table then table else table @ [row])"

definition insert_or_ignore_many :: "('r \<Rightarrow> 'r \<Rightarrow> bool) \<Rightarrow> 'r list \<Rightarrow> 'r list \<Rightarrow> 'r list" where
  "insert_or_ignore_many conflicts rows table = fold (insert_or_ignore conflicts) rows table"

text \<open>\<open>INSERT OR REPLACE\<close> of one row: the stored rows it conflicts with are deleted,
  then the row is appended.\<close>

definition insert_or_replace :: "('r \<Rightarrow> 'r \<Rightarrow> bool) \<Rightarrow> 'r \<Rightarrow> 'r list \<Rightarrow> 'r list" where
  "insert_or_replace conflicts row table = filter (\<lambda>r. \<not> conflicts row r) table @ [row]"

definition insert_or_replace_many :: "('r \<Rightarrow> 'r \<Rightarrow> bool) \<Rightarrow> 'r list \<Rightarrow> 'r list \<Rightarrow> 'r list" where
  "insert_or_replace_many conflicts rows table = fold (insert_or_replace conflicts) rows table"

text \<open>The constraints of \<open>ensure_schema\<close>. A primary key over all columns: equal rows.\<close>

definition whole_row :: "'r \<Rightarrow> 'r \<Rightarrow> bool" where
  "whole_row new stored = (new = stored)"

text \<open>\<open>genres\<close> and \<open>platforms\<close>: \<open>id INTEGER PRIMARY KEY\<close>, and \<open>name TEXT UNIQUE\<close>
  where the table has that declaration.\<close>

definition vocabulary_conflict :: "bool \<Rightarrow> int \<times> string \<Rightarrow> int \<times> string \<Rightarrow> bool" where
  "vocabulary_conflict names_unique new stored =
     (fst new = fst stored \<or> (names_unique \<and> snd new = snd stored))"

text \<open>\<open>game_series_links\<close> and \<open>game_additions_links\<close>: the whole row is the primary key
  where the table has that declaration; otherwise the only key is the autoincrement
  \<open>id\<close>, which no inserted row repeats.\<close>

definition related_link_conflict ::
  "bool \<Rightarrow> int \<times> string \<times> string \<Rightarrow> int \<times> string \<times> string \<Rightarrow> bool" where
  "related_link_conflict keyed new stored = (keyed \<and> new = stored)"

text \<open>\<open>stores\<close>: primary key \<open>id\<close>, unique index on \<open>slug\<close> (NULLs never collide).\<close>

definition store_conflict :: "store_row \<Rightarrow> store_row \<Rightarrow> bool" where
  "store_conflict new stored =
     (st_id new = st_id stored \<or> (st_slug new \<noteq> None \<and> st_slug new = st_slug stored))"

text \<open>\<open>game_stores\<close>: \<open>PRIMARY KEY (game_id, store_id)\<close>.\<close>

definition game_store_conflict :: "int \<times> int \<times> string option \<Rightarrow> int \<times> int \<times> string option \<Rightarrow> bool" where
  "game_store_conflict new stored = (fst new = fst stored \<and> fst (snd new) = fst (snd stored))"

text \<open>\<open>media\<close>: \<open>UNIQUE(game_id, type, url)\<close>.\<close>

definition media_conflict :: "media_row \<Rightarrow> media_row \<Rightarrow> bool" where
  "media_conflict new stored =
     (m_game_id new = m_game_id stored \<and> m_type new = m_type stored \<and> m_url new = m_url stored)"

text \<open>\<open>game_suggestions\<close>: \<open>UNIQUE(game_id, position)\<close>.\<close>

definition suggestion_conflict :: "suggestion_row \<Rightarrow> suggestion_row \<Rightarrow> bool" where
  "suggestion_conflict new stored =
     (sg_game_id new = sg_game_id stored \<and> sg_position new = sg_position stored)"

subsection \<open>More strings\<close>

text \<open>
  \<open>s.strip()\<close> and \<open>s.rstrip("/")\<close>. An element of a string stands for the code point of
  its number, so the strings here are the Python strings of code points below 256, and
  \<open>is_space\<close> lists the code points below 256 for which \<open>str.isspace\<close> holds: tab to
  carriage return, the four separators \<open>0x1C\<close> to \<open>0x1F\<close>, the space, next line \<open>0x85\<close>
  and the no-break space \<open>0xA0\<close>.
\<close>

definition is_space :: "char \<Rightarrow> bool" where
  "is_space c = (c \<in> {CHR '' '', CHR 0x09, CHR 0x0A, CHR 0x0B, CHR 0x0C, CHR 0x0D,
                       CHR 0x1C, CHR 0x1D, CHR 0x1E, CHR 0x1F, CHR 0x85, CHR 0xA0})"

definition strip :: "string \<Rightarrow> string" where
  "strip s = rev (dropWhile is_space (rev (dropWhile is_space s)))"

definition rstrip_slash :: "string \<Rightarrow> string" where
  "rstrip_slash s = rev (dropWhile (\<lambda>c. c = CHR ''/'') (rev s))"

subsection \<open>Link upserts\<close>

text \<open>\<open>[d.get("name") for d in xs if d.get("name")]\<close>.\<close>

definition names_of :: "named_j list \<Rightarrow> string list" where
  "names_of xs = List.map_filter (\<lambda>d. or_None (nj_name d)) xs"

text \<open>
  \<open>upsert_lists\<close>. Where the three tables lack the text column, the first
  \<open>executemany\<close> that runs (the first list that is not empty) raises
  \<open>OperationalError\<close>; nothing was written before it and no caller catches it.
\<close>

definition upsert_lists :: "db \<Rightarrow> int \<Rightarrow> details \<Rightarrow> error + db" where
  "upsert_lists conn gid details =
     (let devs = names_of (d_developers details);
          pubs = names_of (d_publishers details);
          tags = names_of (d_tags details);
          conn1 = (if devs \<noteq> []
                   then conn\<lparr>game_developers :=
                          insert_or_ignore_many whole_row (map (\<lambda>d. (gid, strip d)) devs)
                            (game_developers conn)\<rparr>
                   else conn);
          conn2 = (if pubs \<noteq> []
                   then conn1\<lparr>game_publishers :=
                          insert_or_ignore_many whole_row (map (\<lambda>p. (gid, strip p)) pubs)
                            (game_publishers conn1)\<rparr>
                   else conn1)
      in if \<not> name_link_columns (tables conn) \<and> (devs \<noteq> [] \<or> pubs \<noteq> [] \<or> tags \<noteq> [])
         then Inl OperationalError
         else if tags \<noteq> []
         then Inr (conn2\<lparr>game_tags :=
                insert_or_ignore_many whole_row (map (\<lambda>t. (gid, strip t)) tags)
                  (game_tags conn2)\<rparr>)
         else Inr conn2)"

text \<open>One turn of the genre loop and of the platform loop of
  \<open>upsert_genres_platforms\<close>; \<open>if gid_raw and gname\<close> wants a non-zero id and a
  non-empty name.\<close>

definition upsert_genre :: "int \<Rightarrow> idname_j \<Rightarrow> db \<Rightarrow> db" where
  "upsert_genre gid g conn =
     (case (or_None_num (ij_id g), or_None (ij_name g)) of
        (Some gid_raw, Some gname) \<Rightarrow>
          conn\<lparr>genres :=
                 insert_or_ignore (vocabulary_conflict (vocabulary_names_unique (tables conn)))
                   (gid_raw, strip gname) (genres conn),
               game_genres := insert_or_ignore whole_row (gid, gid_raw) (game_genres conn)\<rparr>
      | _ \<Rightarrow> conn)"

definition upsert_platform :: "int \<Rightarrow> platform_entry_j \<Rightarrow> db \<Rightarrow> db" where
  "upsert_platform gid p conn =
     (case pe_platform p of
        None \<Rightarrow> conn
      | Some plat \<Rightarrow>
          (case (or_None_num (ij_id plat), or_None (ij_name plat)) of
             (Some pid_raw, Some pname) \<Rightarrow>
               conn\<lparr>platforms :=
                      insert_or_ignore
                        (vocabulary_conflict (vocabulary_names_unique (tables conn)))
                        (pid_raw, strip pname) (platforms conn),
                    game_platforms :=
                      insert_or_ignore whole_row (gid, pid_raw) (game_platforms conn)\<rparr>
           | _ \<Rightarrow> conn))"

definition upsert_genres_platforms :: "db \<Rightarrow> int \<Rightarrow> details \<Rightarrow> db" where
  "upsert_genres_platforms conn gid details =
     fold (upsert_platform gid) (d_platforms details)
       (fold (upsert_genre gid) (d_genres details) conn)"

text \<open>\<open>sid = store_obj.get("id") or s.get("id")\<close>, with \<open>store_obj = s.get("store") or {}\<close>.\<close>

definition store_id_of :: "store_entry_j \<Rightarrow> int option" where
  "store_id_of s =
     (case or_None_num (case se_store s of None \<Rightarrow> None | Some so \<Rightarrow> so_id so) of
        Some sid \<Rightarrow> Some sid
      | None \<Rightarrow> or_None_num (se_id s))"

definition store_row_of :: "int \<Rightarrow> store_entry_j \<Rightarrow> store_row" where
  "store_row_of sid s =
     \<lparr>st_id = sid,
      st_name = or_None (case se_store s of None \<Rightarrow> None | Some so \<Rightarrow> so_name so),
      st_slug = or_None (case se_store s of None \<Rightarrow> None | Some so \<Rightarrow> so_slug so),
      st_domain = or_None (case se_store s of None \<Rightarrow> None | Some so \<Rightarrow> so_domain so)\<rparr>"

text \<open>The loop of \<open>upsert_store_links\<close>: the \<open>stores\<close> table and \<open>rows_link\<close> after it.\<close>

fun store_loop ::
  "int \<Rightarrow> store_entry_j list \<Rightarrow> store_row list \<Rightarrow> (int \<times> int \<times> string option) list
     \<Rightarrow> store_row list \<times> (int \<times> int \<times> string option) list" where
  "store_loop gid [] table rows_link = (table, rows_link)"
| "store_loop gid (s # rest) table rows_link =
     (case store_id_of s of
        None \<Rightarrow> store_loop gid rest table rows_link
      | Some sid \<Rightarrow>
          store_loop gid rest (insert_or_ignore store_conflict (store_row_of sid s) table)
            (rows_link @ [(gid, sid, or_None (se_url s))]))"

definition upsert_store_links :: "db \<Rightarrow> int \<Rightarrow> details \<Rightarrow> db" where
  "upsert_store_links conn gid details =
     (case store_loop gid (d_stores details) (stores conn) [] of
        (table, rows_link) \<Rightarrow>
          (let conn1 = conn\<lparr>stores := table\<rparr>
           in if rows_link \<noteq> []
              then conn1\<lparr>game_stores :=
                     insert_or_ignore_many game_store_conflict rows_link (game_stores conn1)\<rparr>
              else conn1))"

text \<open>The rows that \<open>upsert_links\<close> builds from the results of one endpoint.\<close>

definition link_rows :: "int \<Rightarrow> link_j list \<Rightarrow> (int \<times> string \<times> string) list" where
  "link_rows gid results =
     List.map_filter
       (\<lambda>s. case (or_None (lk_name s), or_None (lk_slug s)) of
               (Some n, Some slug) \<Rightarrow>
                 Some (gid, strip n, rstrip_slash (''https://rawg.io/games/'' @ slug))
             | _ \<Rightarrow> None)
       results"

text \<open>Each half of \<open>upsert_links\<close> sits in \<open>try ... except Exception: pass\<close>: an exception of
  the request leaves the table as it is. The guards \<open>if results\<close> and \<open>if rows\<close> skip an
  \<open>executemany\<close> over no rows, which inserts nothing either. What \<open>INSERT OR IGNORE\<close>
  ignores depends on the declaration the two tables have in this store.\<close>

definition upsert_links :: "upstream \<Rightarrow> db \<Rightarrow> int \<Rightarrow> db" where
  "upsert_links up conn gid =
     (let conn1 =
            (case fst (rawg_get (up_game_series up gid) 3) of
               Inl e \<Rightarrow> conn
             | Inr series \<Rightarrow>
                 conn\<lparr>game_series_links :=
                   insert_or_ignore_many
                     (related_link_conflict (related_links_keyed (tables conn)))
                     (link_rows gid (pg_results (or_empty_page series)))
                     (game_series_links conn)\<rparr>)
      in case fst (rawg_get (up_additions up gid) 3) of
           Inl e \<Rightarrow> conn1
         | Inr adds \<Rightarrow>
             conn1\<lparr>game_additions_links :=
               insert_or_ignore_many
                 (related_link_conflict (related_links_keyed (tables conn1)))
                 (link_rows gid (pg_results (or_empty_page adds)))
                 (game_additions_links conn1)\<rparr>)"

subsection \<open>Media\<close>

text \<open>
  \<open>cover_fallback_from_images\<close>: nothing happens without a row of the item or when
  \<open>(row[0] or "").strip()\<close> is not empty; otherwise the cover becomes the image of the
  first screenshot, when there is one.
\<close>

definition cover_fallback_from_images :: "db \<Rightarrow> int \<Rightarrow> screenshot_j list \<Rightarrow> db" where
  "cover_fallback_from_images conn gid images =
     (case select_game conn gid of
        None \<Rightarrow> conn
      | Some row \<Rightarrow>
          if strip (case g_cover_image row of None \<Rightarrow> '''' | Some c \<Rightarrow> c) \<noteq> '''' then conn
          else (case images of
                  [] \<Rightarrow> conn
                | first # rest \<Rightarrow>
                    update_game conn gid (\<lambda>r. r\<lparr>g_cover_image := sh_image first\<rparr>)))"

text \<open>The loop of \<open>store_media_images\<close>: \<open>rows_media\<close> and \<open>rows_legacy\<close>, with the
  position \<open>pos\<close> that only an entry with an image advances.\<close>

fun image_rows :: "int \<Rightarrow> int \<Rightarrow> screenshot_j list \<Rightarrow> media_row list" where
  "image_rows gid pos [] = []"
| "image_rows gid pos (item # rest) =
     (case or_None (sh_image item) of
        None \<Rightarrow> image_rows gid pos rest
      | Some url \<Rightarrow>
          \<lparr>m_game_id = gid, m_type = ''image'', m_url = url, m_preview_url = None,
           m_position = Some pos\<rparr> # image_rows gid (pos + 1) rest)"

fun legacy_rows :: "int \<Rightarrow> int \<Rightarrow> screenshot_j list \<Rightarrow> (int \<times> string) list" where
  "legacy_rows gid pos [] = []"
| "legacy_rows gid pos (item # rest) =
     (case or_None (sh_image item) of
        None \<Rightarrow> legacy_rows gid pos rest
      | Some url \<Rightarrow>
          (if pos \<le> 40 then [(gid, url)] else []) @ legacy_rows gid (pos + 1) rest)"

text \<open>
  \<open>store_media_images\<close>. The legacy \<open>screenshots\<close> table has no uniqueness constraint
  and a plain \<open>INSERT\<close>, run only when the item has no row there. The download to disk in
  the last lines writes no table and swallows its exceptions.
\<close>

definition store_media_images :: "db \<Rightarrow> int \<Rightarrow> screenshot_j list \<Rightarrow> db" where
  "store_media_images conn gid images =
     (if images = [] then conn
      else
        (let rows_media = image_rows gid 1 images;
             rows_legacy = legacy_rows gid 1 images;
             conn1 = (if rows_media \<noteq> []
                      then conn\<lparr>media :=
                             insert_or_ignore_many media_conflict rows_media (media conn)\<rparr>
                      else conn)
         in if fetchone_is_None (map fst (screenshots conn1)) gid \<and> rows_legacy \<noteq> []
            then conn1\<lparr>screenshots := screenshots conn1 @ rows_legacy\<rparr>
            else conn1))"

text \<open>What \<open>fetch_movies\<close> returns for one movie.\<close>

record video_out =
  vo_url :: "string option"
  vo_preview :: "string option"
  vo_name :: "string option"

text \<open>\<open>data.get("max") or data.get("480")\<close>, with \<open>data = item.get("data") or {}\<close>.\<close>

definition movie_url :: "movie_j \<Rightarrow> string option" where
  "movie_url item =
     (case mv_data item of
        None \<Rightarrow> None
      | Some data \<Rightarrow>
          (case or_None (md_max data) of Some u \<Rightarrow> Some u | None \<Rightarrow> md_480 data))"

definition fetch_movies :: "upstream \<Rightarrow> int \<Rightarrow> error + video_out list" where
  "fetch_movies up game_id =
     (case fst (rawg_get (up_movies up game_id) 3) of
        Inl e \<Rightarrow> Inl e
      | Inr j \<Rightarrow>
          Inr (List.map_filter
                 (\<lambda>item. case or_None (movie_url item) of
                            None \<Rightarrow> None
                          | Some url \<Rightarrow>
                              Some \<lparr>vo_url = Some url, vo_preview = mv_preview item,
                                    vo_name = mv_name item\<rparr>)
                 (pg_results (or_empty_page j))))"

fun video_rows :: "int \<Rightarrow> int \<Rightarrow> video_out list \<Rightarrow> media_row list" where
  "video_rows gid pos [] = []"
| "video_rows gid pos (v # rest) =
     (case or_None (vo_url v) of
        None \<Rightarrow> video_rows gid pos rest
      | Some url \<Rightarrow>
          \<lparr>m_game_id = gid, m_type = ''video'', m_url = url, m_preview_url = vo_preview v,
           m_position = Some pos\<rparr> # video_rows gid (pos + 1) rest)"

definition store_media_videos :: "db \<Rightarrow> int \<Rightarrow> video_out list \<Rightarrow> db" where
  "store_media_videos conn gid videos =
     (if videos = [] then conn
      else
        (let rows = video_rows gid 1 videos
         in if rows \<noteq> []
            then conn\<lparr>media := insert_or_ignore_many media_conflict rows (media conn)\<rparr>
            else conn))"

subsection \<open>Suggestions\<close>

text \<open>What \<open>fetch_suggestions\<close> returns for one candidate; \<open>platforms\<close> holds a None
  for an entry without a platform name.\<close>

record suggestion_out =
  sug_id :: "int option"
  sug_name :: "string option"
  sug_image :: "string option"
  sug_released :: "string option"
  sug_metacritic :: "int option"
  sug_platforms :: "string option list"
  sug_genres :: "string list"

definition suggestion_of :: "suggested_j \<Rightarrow> suggestion_out" where
  "suggestion_of item =
     \<lparr>sug_id = su_id item, sug_name = su_name item,
      sug_image = normalize_rawg_image (su_background_image item),
      sug_released = su_released item, sug_metacritic = su_metacritic item,
      sug_platforms =
        map (\<lambda>p. case pe_platform p of None \<Rightarrow> None | Some plat \<Rightarrow> ij_name plat)
          (su_platforms item),
      sug_genres = names_of (su_genres item)\<rparr>"

definition fetch_suggestions :: "upstream \<Rightarrow> int \<Rightarrow> nat \<Rightarrow> error + suggestion_out list" where
  "fetch_suggestions up game_id limit =
     (case fst (rawg_get (up_suggested up game_id) 3) of
        Inl e \<Rightarrow> Inl e
      | Inr j \<Rightarrow> Inr (map suggestion_of (take limit (pg_results (or_empty_page j)))))"

text \<open>The row of one candidate at position \<open>pos\<close>; a list that is empty after the
  filter is stored as NULL.\<close>

definition suggestion_row_of :: "int \<Rightarrow> int \<Rightarrow> suggestion_out \<Rightarrow> suggestion_row" where
  "suggestion_row_of gid pos s =
     (let platforms = List.map_filter or_None (sug_platforms s);
          genres = sug_genres s;
          meta = sug_metacritic s
      in \<lparr>sg_game_id = gid, sg_position = pos, sg_suggested_id = sug_id s,
          sg_name = sug_name s, sg_image_url = sug_image s,
          sg_platforms_csv = (if platforms \<noteq> [] then Some (join ''; '' platforms) else None),
          sg_metascore_number = meta, sg_metascore_color = metascore_color meta,
          sg_released = sug_released s,
          sg_genres_csv = (if genres \<noteq> [] then Some (join ''; '' genres) else None)\<rparr>)"

fun suggestion_rows :: "int \<Rightarrow> int \<Rightarrow> suggestion_out list \<Rightarrow> suggestion_row list" where
  "suggestion_rows gid pos [] = []"
| "suggestion_rows gid pos (s # rest) =
     suggestion_row_of gid pos s # suggestion_rows gid (pos + 1) rest"

definition store_suggestions :: "db \<Rightarrow> int \<Rightarrow> suggestion_out list \<Rightarrow> db" where
  "store_suggestions conn gid suggestions =
     (if suggestions = [] then conn
      else conn\<lparr>game_suggestions :=
             insert_or_replace_many suggestion_conflict
               (suggestion_rows gid 1 (take 8 suggestions)) (game_suggestions conn)\<rparr>)"

subsection \<open>Enrichment controller\<close>

text \<open>The first lines of \<open>enrich_one\<close>: the images embedded in the details, normalized.\<close>

definition normalize_details :: "details \<Rightarrow> details" where
  "normalize_details details =
     details\<lparr>d_background_image := normalize_rawg_image (d_background_image details),
             d_background_image_additional :=
               normalize_rawg_image (d_background_image_additional details),
             d_short_screenshots :=
               map (\<lambda>s. case s of
                          None \<Rightarrow> None
                        | Some sh \<Rightarrow>
                            (case or_None (ss_image sh) of
                               None \<Rightarrow> Some sh
                             | Some img \<Rightarrow>
                                 Some (sh\<lparr>ss_image := normalize_rawg_image (Some img)\<rparr>)))
                 (d_short_screenshots details)\<rparr>"

text \<open>
  \<open>enrich_one\<close>, with the soft cap \<open>MAX_IMAGES\<close> of the environment as a parameter. The
  result is None when the screenshot loop never returns; otherwise the exception that
  leaves the function (\<open>Inl\<close>) or the returned boolean, and the store as the statements
  executed so far leave it. Only the suggestion step has its own \<open>try\<close>; an
  exception of \<open>upsert_game_core\<close> or \<open>upsert_lists\<close> leaves the function like one of
  a request. A body that is
  \<open>null\<close> or the empty object is as falsy as None for \<open>if not details\<close>; the typed
  response has None for it.
\<close>

definition enrich_one :: "upstream \<Rightarrow> int \<Rightarrow> db \<Rightarrow> int \<Rightarrow> ((error + bool) \<times> db) option" where
  "enrich_one up max_images conn gid =
     (case fetch_details up gid of
        Inl e \<Rightarrow> Some (Inl e, conn)
      | Inr None \<Rightarrow> Some (Inr False, conn)
      | Inr (Some fetched) \<Rightarrow>
          (let details = normalize_details fetched
           in case upsert_game_core conn details of
                Inl e \<Rightarrow> Some (Inl e, conn)
              | Inr conn1 \<Rightarrow>
                  (case upsert_lists conn1 gid details of
                     Inl e \<Rightarrow> Some (Inl e, conn1)
                   | Inr conn2 \<Rightarrow>
                       (let conn3 = upsert_genres_platforms conn2 gid details;
                            conn4 = upsert_store_links conn3 gid details;
                            conn5 = upsert_links up conn4 gid
                        in case fetch_all_screenshots up gid max_images of
                             None \<Rightarrow> None
                           | Some (Inl e, n) \<Rightarrow> Some (Inl e, conn5)
                           | Some (Inr images, n) \<Rightarrow>
                               (let conn6 = cover_fallback_from_images conn5 gid images;
                                    conn7 = store_media_images conn6 gid images
                                in case fetch_movies up gid of
                                     Inl e \<Rightarrow> Some (Inl e, conn7)
                                   | Inr videos \<Rightarrow>
                                       (let conn8 = store_media_videos conn7 gid videos
                                        in case fetch_suggestions up gid 8 of
                                             Inl e \<Rightarrow> Some (Inr True, conn8)
                                           | Inr sugg \<Rightarrow>
                                               Some (Inr True,
                                                 store_suggestions conn8 gid sugg)))))))"

text \<open>
  The loop of the orphan-insert pass of \<open>main\<close>,
  \<open>for gid in to_insert: ok = enrich_one(conn, gid) ...\<close>, with the counters of successes
  and failures. No statement of \<open>main\<close> catches an exception.
\<close>

fun enrich_each ::
  "upstream \<Rightarrow> int \<Rightarrow> db \<Rightarrow> int list \<Rightarrow> nat \<Rightarrow> nat \<Rightarrow> ((error + nat \<times> nat) \<times> db) option" where
  "enrich_each up max_images conn [] ok failed = Some (Inr (ok, failed), conn)"
| "enrich_each up max_images conn (gid # rest) ok failed =
     (case enrich_one up max_images conn gid of
        None \<Rightarrow> None
      | Some (Inl e, conn') \<Rightarrow> Some (Inl e, conn')
      | Some (Inr True, conn') \<Rightarrow> enrich_each up max_images conn' rest (ok + 1) failed
      | Some (Inr False, conn') \<Rightarrow> enrich_each up max_images conn' rest ok (failed + 1))"

text \<open>The completeness sweep of \<open>main\<close> over \<open>all_ids\<close>.\<close>

fun sweep ::
  "upstream \<Rightarrow> int \<Rightarrow> db \<Rightarrow> int list \<Rightarrow> nat \<Rightarrow> nat \<Rightarrow> ((error + nat \<times> nat) \<times> db) option" where
  "sweep up max_images conn [] en_ok en_skip = Some (Inr (en_ok, en_skip), conn)"
| "sweep up max_images conn (gid # rest) en_ok en_skip =
     (if needs_enrich conn gid
      then (case enrich_one up max_images conn gid of
              None \<Rightarrow> None
            | Some (Inl e, conn') \<Rightarrow> Some (Inl e, conn')
            | Some (Inr True, conn') \<Rightarrow> sweep up max_images conn' rest (en_ok + 1) en_skip
            | Some (Inr False, conn') \<Rightarrow> sweep up max_images conn' rest en_ok (en_skip + 1))
      else sweep up max_images conn rest en_ok en_skip)"

text \<open>
  \<open>main\<close> without command-line ids, given the sorted ids of the asset folders: the
  orphan-insert pass over the ids that have no row, then the sweep over
  \<open>SELECT id FROM games ORDER BY id ASC\<close>. The result holds the four counters of the
  summary.
\<close>

definition main_full ::
  "upstream \<Rightarrow> int \<Rightarrow> db \<Rightarrow> int list \<Rightarrow> ((error + (nat \<times> nat) \<times> (nat \<times> nat)) \<times> db) option" where
  "main_full up max_images conn folder_ids =
     (let db_ids = map fst (games conn);
          to_insert = filter (\<lambda>gid. gid \<notin> set db_ids) folder_ids
      in case enrich_each up max_images conn to_insert 0 0 of
           None \<Rightarrow> None
         | Some (Inl e, conn') \<Rightarrow> Some (Inl e, conn')
         | Some (Inr inserted, conn') \<Rightarrow>
             (case sweep up max_images conn' (sort (map fst (games conn'))) 0 0 of
                None \<Rightarrow> None
              | Some (Inl e, conn'') \<Rightarrow> Some (Inl e, conn'')
              | Some (Inr enriched, conn'') \<Rightarrow> Some (Inr (inserted, enriched), conn'')))"

subsection \<open>Example data\<close>

text \<open>A store with the single item 7, whose website is filled and whose description
  is not; the link tables are empty.\<close>

definition item7_row :: game_row where
  "item7_row =
     \<lparr>g_slug = Some ''sample'', g_name = Some ''Sample'', g_released = None,
      g_rating = None, g_description = None, g_website = Some ''https://old.example'',
      g_age_rating = None, g_cover_image = None, g_metascore_number = None,
      g_metascore_color = None\<rparr>"

definition item7_db :: db where
  "item7_db =
     \<lparr>tables = ensure_schema_tables, games = [(7, item7_row)], game_developers = [], game_publishers = [],
      game_tags = [], game_series_links = [], game_additions_links = [],
      screenshots = [], genres = [], game_genres = [], platforms = [],
      game_platforms = [], media = [], stores = [], game_stores = [],
      game_suggestions = []\<rparr>"


text \<open>Servers for the examples: the same response to every attempt, and a server error
  followed by 404.\<close>

definition always :: "nat \<Rightarrow> 'a option \<Rightarrow> nat \<Rightarrow> 'a response" where
  "always status body attempt = Response status body"


text \<open>
  The simulated screenshots sub-resource of the pagination property: \<open>N\<close> pages of
  \<open>page_size\<close> entries, each carrying an image; every page but the last has a \<open>next\<close>
  link, a page beyond the last is a 404. The other endpoints answer 404.
\<close>

definition shot :: screenshot_j where
  "shot = \<lparr>sh_image = Some ''https://media.rawg.io/media/screenshots/a.jpg'',
            sh_width = Some 1920, sh_height = Some 1080\<rparr>"

definition paged_screenshots :: "nat \<Rightarrow> nat \<Rightarrow> int \<Rightarrow> nat \<Rightarrow> screenshot_j page_j response" where
  "paged_screenshots N page_size page attempt =
     (if 1 \<le> page \<and> page \<le> int N
      then Response 200 (Some \<lparr>pg_results = replicate page_size shot,
                               pg_next = (if page < int N then Some ''next'' else None)\<rparr>)
      else Response 404 None)"

definition no_upstream :: upstream where
  "no_upstream =
     \<lparr>up_details = (\<lambda>gid. always 404 None), up_screenshots = (\<lambda>gid page. always 404 None),
      up_movies = (\<lambda>gid. always 404 None), up_suggested = (\<lambda>gid. always 404 None),
      up_game_series = (\<lambda>gid. always 404 None), up_additions = (\<lambda>gid. always 404 None)\<rparr>"

definition paged_upstream :: "nat \<Rightarrow> nat \<Rightarrow> upstream" where
  "paged_upstream N page_size =
     no_upstream\<lparr>up_screenshots := (\<lambda>gid. paged_screenshots N page_size)\<rparr>"



text \<open>An empty store, a detail record with nothing but an id, and an upstream that
  answers 403 to the detail request of item 1 and 200 to that of every other item.\<close>

definition empty_db :: db where
  "empty_db =
     \<lparr>tables = ensure_schema_tables, games = [], game_developers = [],
      game_publishers = [], game_tags = [],
      game_series_links = [], game_additions_links = [], screenshots = [], genres = [],
      game_genres = [], platforms = [], game_platforms = [], media = [], stores = [],
      game_stores = [], game_suggestions = []\<rparr>"

definition bare_details :: "int \<Rightarrow> details" where
  "bare_details gid =
     \<lparr>d_id = gid, d_slug = None, d_name = None, d_released = None, d_rating = None,
      d_metacritic = None, d_description_raw = None, d_website = None,
      d_esrb_rating = None, d_background_image = None,
      d_background_image_additional = None, d_short_screenshots = [],
      d_developers = [], d_publishers = [], d_tags = [], d_genres = [],
      d_platforms = [], d_stores = []\<rparr>"

definition forbidden_upstream :: upstream where
  "forbidden_upstream =
     no_upstream\<lparr>up_details :=
       (\<lambda>gid. if gid = 1 then always 403 None else always 200 (Some (bare_details gid)))\<rparr>"

subsection \<open>Views of the store for the statements\<close>

text \<open>
  The effect of \<open>store_media_images\<close> on the legacy table, named on its own for the
  proofs: the rows are appended when the item has no row yet and there is a row to add.
\<close>

definition legacy_insert :: "int \<Rightarrow> (int \<times> string) list \<Rightarrow> (int \<times> string) list \<Rightarrow> (int \<times> string) list" where
  "legacy_insert gid rows_legacy table =
     (if fetchone_is_None (map fst table) gid \<and> rows_legacy \<noteq> [] then table @ rows_legacy
      else table)"

text \<open>The row counts of the link, store, media and suggestion tables, in the order
  developers, publishers, tags, genre links, platform links, series links, addition
  links, store links, media, legacy screenshots, suggestions.\<close>

definition relation_counts :: "db \<Rightarrow> nat list" where
  "relation_counts conn =
     [length (game_developers conn), length (game_publishers conn), length (game_tags conn),
      length (game_genres conn), length (game_platforms conn),
      length (game_series_links conn), length (game_additions_links conn),
      length (game_stores conn), length (media conn), length (screenshots conn),
      length (game_suggestions conn)]"

subsection \<open>A store bootstrapped by \<open>db_prepare_BEFORE.py\<close>\<close>

text \<open>
  The empty store as \<open>db_prepare_BEFORE.py\<close> followed by \<open>ensure_schema\<close> leaves it, and an
  upstream snapshot with a bare detail record for every item and one entry in the series
  of every item; its other endpoints answer 404.
\<close>

definition before_db :: db where
  "before_db = empty_db\<lparr>tables := db_prepare_BEFORE_tables\<rparr>"

definition series_upstream :: upstream where
  "series_upstream =
     no_upstream
       \<lparr>up_details := (\<lambda>gid. always 200 (Some (bare_details gid))),
        up_game_series :=
          (\<lambda>gid. always 200
             (Some \<lparr>pg_results = [\<lparr>lk_name = Some ''Sample II'', lk_slug = Some ''sample-ii''\<rparr>],
                    pg_next = None\<rparr>))\<rparr>"

section \<open>Properties\<close>

subsection \<open>Auxiliary facts\<close>

lemma coalesce_is_empty_iff: "coalesce_is_empty col \<longleftrightarrow> col = None \<or> col = Some ''''"
  by (cases col) (simp_all add: coalesce_is_empty_def)

lemma fetchone_is_None_iff: "fetchone_is_None ks gid \<longleftrightarrow> gid \<notin> set ks"
  by (auto simp add: fetchone_is_None_def filter_empty_conv)

subsection \<open>Strings and the URL normalizer\<close>

lemma starts_with_append: "starts_with p (p @ t)"
  by (induction p) simp_all

lemma split_char_not_Nil: "split_char d s \<noteq> []"
  by (induction s) (simp_all split: list.splits)

lemma split_char_no_sep: "p \<in> set (split_char d s) \<Longrightarrow> d \<notin> set p"
proof (induction s arbitrary: p)
  case Nil
  then show ?case by simp
next
  case (Cons c cs)
  obtain q qs where q: "split_char d cs = q # qs"
    using split_char_not_Nil [of d cs] by (cases "split_char d cs") auto
  show ?case
  proof (cases "c = d")
    case True
    with Cons show ?thesis by auto
  next
    case False
    with Cons.prems q have "p = c # q \<or> p \<in> set qs" by simp
    with Cons.IH [of q] Cons.IH [of p] q False show ?thesis by auto
  qed
qed

lemma join_split_char: "join [d] (split_char d s) = s"
proof (induction s)
  case Nil
  then show ?case by simp
next
  case (Cons c cs)
  obtain q qs where q: "split_char d cs = q # qs"
    using split_char_not_Nil [of d cs] by (cases "split_char d cs") auto
  with Cons show ?case by (cases qs) auto
qed

lemma split_char_single: "d \<notin> set p \<Longrightarrow> split_char d p = [p]"
  by (induction p) auto

lemma split_char_append: "d \<notin> set p \<Longrightarrow> split_char d (p @ d # r) = p # split_char d r"
  by (induction p) auto

lemma split_char_join:
  "ps \<noteq> [] \<Longrightarrow> (\<And>p. p \<in> set ps \<Longrightarrow> d \<notin> set p) \<Longrightarrow> split_char d (join [d] ps) = ps"
proof (induction "[d]" ps rule: join.induct)
  case 1
  then show ?case by simp
next
  case (2 p)
  then show ?case by (simp add: split_char_single)
next
  case (3 p q ps)
  then show ?case by (simp add: split_char_append)
qed

lemma index_of_Some: "index_of x ys = Some i \<Longrightarrow> i < length ys \<and> ys ! i = x"
  by (induction ys arbitrary: i) (auto split: if_splits)

lemma split_once_after_prefix:
  "split_once_after ''/media/'' (MEDIA_PREFIX @ t) = Some t"
  by (simp add: MEDIA_PREFIX_def)

lemma contains_prefix: "contains_str MEDIA_PREFIX (MEDIA_PREFIX @ t)"
  using starts_with_append [of MEDIA_PREFIX t]
  by (cases "MEDIA_PREFIX @ t") (auto simp: MEDIA_PREFIX_def)

lemma starts_with_decomp: "starts_with p s \<Longrightarrow> \<exists>y. s = p @ y"
  by (induction p s rule: starts_with.induct) auto

lemma contains_str_decomp: "contains_str sub u \<Longrightarrow> \<exists>x y. u = x @ sub @ y"
proof (induction u)
  case Nil
  then show ?case by simp
next
  case (Cons c cs)
  show ?case
  proof (cases "starts_with sub (c # cs)")
    case True
    then obtain y where "c # cs = sub @ y" using starts_with_decomp by blast
    then have "c # cs = [] @ sub @ y" by simp
    then show ?thesis by blast
  next
    case False
    with Cons obtain x y where "cs = x @ sub @ y" by auto
    then have "c # cs = (c # x) @ sub @ y" by simp
    then show ?thesis by blast
  qed
qed

lemma split_once_after_occurs: "split_once_after sep (x @ sep @ y) \<noteq> None"
proof (induction x)
  case Nil
  show ?case
    using starts_with_append [of sep y] by (cases "sep @ y") auto
next
  case (Cons c x)
  then show ?case by simp
qed

lemma split_once_after_media:
  "contains_str MEDIA_PREFIX u \<Longrightarrow> split_once_after ''/media/'' u \<noteq> None"
proof -
  assume "contains_str MEDIA_PREFIX u"
  then obtain x y where "u = x @ MEDIA_PREFIX @ y"
    using contains_str_decomp by blast
  then have "u = (x @ ''https://media.rawg.io'') @ ''/media/'' @ y"
    by (simp add: MEDIA_PREFIX_def)
  then show ?thesis
    using split_once_after_occurs [of "''/media/''" "x @ ''https://media.rawg.io''" y]
    by simp
qed

lemma normalize_prefixed:
  "normalize_rawg_image (Some (MEDIA_PREFIX @ t)) = Some (MEDIA_PREFIX @ norm_tail t)"
proof -
  have "MEDIA_PREFIX @ t \<noteq> []" by (simp add: MEDIA_PREFIX_def)
  then show ?thesis
    by (simp add: normalize_rawg_image_def contains_prefix split_once_after_prefix
        norm_tail_def Let_def)
qed


lemma norm_tail_other: "hd (split_char CHR ''/'' t) \<notin> {''crop'', ''resize''} \<Longrightarrow> norm_tail (norm_tail t) = norm_tail t"
  by (simp add: norm_tail_def Let_def)

lemma norm_tail_no_games: "hd (split_char CHR ''/'' t) \<in> {''crop'', ''resize''} \<Longrightarrow> index_of ''games'' (split_char CHR ''/'' t) = None
   \<Longrightarrow> norm_tail t = t"
  by (simp add: norm_tail_def Let_def split_char_not_Nil join_split_char)

lemma norm_tail_games: 
  assumes "hd (split_char CHR ''/'' t) \<in> {''crop'', ''resize''}" 
    and Some: "index_of ''games'' (split_char CHR ''/'' t) = Some gi"
  shows "norm_tail (norm_tail t) = norm_tail t"
proof -
  let ?parts = "split_char CHR ''/'' t"
  from Some have gi: "gi < length ?parts" "?parts ! gi = ''games''"
    using index_of_Some [of "''games''" ?parts gi] by simp_all
  then have d: "drop gi ?parts = ''games'' # drop (Suc gi) ?parts"
    using Cons_nth_drop_Suc [of gi ?parts] by simp
  have nosep: "\<And>p. p \<in> set (drop gi ?parts) \<Longrightarrow> CHR ''/'' \<notin> set p"
    using split_char_no_sep [of _ "CHR ''/''" t] in_set_dropD [of _ gi ?parts] by blast
  have nt: "norm_tail t = join ''/'' (drop gi ?parts)"
    using assms by (simp add: norm_tail_def Let_def split_char_not_Nil)
  have sj: "split_char CHR ''/'' (join ''/'' (drop gi ?parts)) = drop gi ?parts"
    using split_char_join [of "drop gi ?parts" "CHR ''/''"] nosep d by simp
  let ?rest = "''games'' # drop (Suc gi) ?parts"
  from sj d have sj': "split_char CHR ''/'' (join ''/'' ?rest) = ?rest"
    by simp
  have "norm_tail (join ''/'' ?rest) = join ''/'' ?rest"
    unfolding norm_tail_def Let_def sj' by simp
  with nt d show ?thesis by simp
qed

lemma norm_tail_idem: "norm_tail (norm_tail t) = norm_tail t"
proof (cases "hd (split_char CHR ''/'' t) \<in> {''crop'', ''resize''}")
  case False
  then show ?thesis by (rule norm_tail_other)
next
  case True
  show ?thesis
  proof (cases "index_of ''games'' (split_char CHR ''/'' t)")
    case None
    with True have "norm_tail t = t" by (rule norm_tail_no_games)
    then show ?thesis by simp
  next
    case (Some gi)
    with True show ?thesis by (rule norm_tail_games)
  qed
qed

text \<open>
  Claim C5. The image URL normalizer is idempotent on every argument, maps None to None,
  and returns unchanged every URL that does not contain the media prefix, and the empty
  URL.
\<close>

theorem normalize_rawg_image_idempotent:
  "normalize_rawg_image (normalize_rawg_image url) = normalize_rawg_image url
   \<and> normalize_rawg_image None = None
   \<and> (\<not> contains_str MEDIA_PREFIX u \<longrightarrow> normalize_rawg_image (Some u) = Some u)
   \<and> normalize_rawg_image (Some []) = Some []"
proof -
  have idem: "normalize_rawg_image (normalize_rawg_image url) = normalize_rawg_image url"
  proof (cases url)
    case None
    then show ?thesis by (simp add: normalize_rawg_image_def)
  next
    case (Some v)
    show ?thesis
    proof (cases "v = [] \<or> \<not> contains_str MEDIA_PREFIX v")
      case True
      with Some show ?thesis by (auto simp add: normalize_rawg_image_def)
    next
      case False
      then obtain tail where tail: "split_once_after ''/media/'' v = Some tail"
        using split_once_after_media by blast
      with False Some have "normalize_rawg_image url = Some (MEDIA_PREFIX @ norm_tail tail)"
        by (simp add: normalize_rawg_image_def norm_tail_def Let_def)
      then show ?thesis
        by (simp add: normalize_prefixed norm_tail_idem)
    qed
  qed
  then show ?thesis by (simp add: normalize_rawg_image_def)
qed

theorem normalize_rawg_image_idempotent_witness:
  "\<not> contains_str MEDIA_PREFIX ''https://example.com/crop/a.jpg''
   \<and> normalize_rawg_image (Some ''https://example.com/crop/a.jpg'')
        = Some ''https://example.com/crop/a.jpg''
   \<and> normalize_rawg_image
         (Some ''https://media.rawg.io/media/crop/600/400/games/abc/def.jpg'')
        = Some ''https://media.rawg.io/media/games/abc/def.jpg''
   \<and> normalize_rawg_image (Some ''https://media.rawg.io/media/games/abc/def.jpg'')
        = Some ''https://media.rawg.io/media/games/abc/def.jpg''"
proof -
  have a: "\<not> contains_str MEDIA_PREFIX ''https://example.com/crop/a.jpg''"
    by code_simp
  have b: "normalize_rawg_image
             (Some ''https://media.rawg.io/media/crop/600/400/games/abc/def.jpg'')
           = Some ''https://media.rawg.io/media/games/abc/def.jpg''"
    by code_simp
  note t = normalize_rawg_image_idempotent
    [of "Some ''https://media.rawg.io/media/crop/600/400/games/abc/def.jpg''"
        "''https://example.com/crop/a.jpg''"]
  from t a have c: "normalize_rawg_image (Some ''https://example.com/crop/a.jpg'')
        = Some ''https://example.com/crop/a.jpg''"
    by blast
  from t have "normalize_rawg_image (normalize_rawg_image
             (Some ''https://media.rawg.io/media/crop/600/400/games/abc/def.jpg''))
       = normalize_rawg_image
             (Some ''https://media.rawg.io/media/crop/600/400/games/abc/def.jpg'')"
    by (rule conjunct1)
  then have d: "normalize_rawg_image (Some ''https://media.rawg.io/media/games/abc/def.jpg'')
        = Some ''https://media.rawg.io/media/games/abc/def.jpg''"
    unfolding b .
  from a b c d show ?thesis by (intro conjI)
qed

subsection \<open>Metascore colour\<close>

text \<open>
  Claim C4. The metascore colour is a total function of the score that partitions the
  integers: it is green exactly on 75..100, yellow exactly on 50..74, red exactly on
  0..49, and undefined (None) exactly outside 0..100; on a missing score it is None.
  The three ranges are closed, do not overlap, and leave no gap inside 0..100.
\<close>

theorem metascore_color_partition:
  "(metascore_color (Some n) = Some ''green'') = (75 \<le> n \<and> n \<le> 100)
   \<and> (metascore_color (Some n) = Some ''yellow'') = (50 \<le> n \<and> n \<le> 74)
   \<and> (metascore_color (Some n) = Some ''red'') = (0 \<le> n \<and> n \<le> 49)
   \<and> (metascore_color (Some n) = None) = (n < 0 \<or> 100 < n)
   \<and> metascore_color (Some n) \<in> {None, Some ''green'', Some ''yellow'', Some ''red''}
   \<and> metascore_color None = None"
  unfolding metascore_color_def by (simp; linarith)

subsection \<open>Completeness oracle\<close>

text \<open>
  Claim C10. For an id that has no row at all in \<open>games\<close>, the completeness oracle
  answers true, whatever the link tables hold.
\<close>

theorem needs_enrich_unknown_id:
  assumes "select_game conn gid = None"
  shows "needs_enrich conn gid"
  using assms by (simp add: needs_enrich_def)

theorem needs_enrich_unknown_id_witness:
  "select_game item7_db 8 = None \<and> needs_enrich item7_db 8"
proof -
  have h: "select_game item7_db 8 = None"
    by (simp add: select_game_def item7_db_def)
  from needs_enrich_unknown_id [OF h] h show ?thesis by simp
qed

text \<open>
  Claim C3. For an item that has a row in \<open>games\<close>, the completeness oracle answers
  true if and only if one of description, website, age rating, cover image is NULL or the
  empty string, or one of the eight link tables (developers, publishers, tags, series
  links, addition links, genre links, platform links, store links) holds no row of the
  item. In particular it answers true as soon as the item has no tag link, whatever else
  is populated.
\<close>

theorem needs_enrich_iff:
  assumes "select_game conn gid = Some row"
  shows "(needs_enrich conn gid \<longleftrightarrow>
            g_description row \<in> {None, Some ''''} \<or> g_website row \<in> {None, Some ''''}
          \<or> g_age_rating row \<in> {None, Some ''''} \<or> g_cover_image row \<in> {None, Some ''''}
          \<or> gid \<notin> fst ` set (game_developers conn)
          \<or> gid \<notin> fst ` set (game_publishers conn)
          \<or> gid \<notin> fst ` set (game_tags conn)
          \<or> gid \<notin> fst ` set (game_series_links conn)
          \<or> gid \<notin> fst ` set (game_additions_links conn)
          \<or> gid \<notin> fst ` set (game_genres conn)
          \<or> gid \<notin> fst ` set (game_platforms conn)
          \<or> gid \<notin> fst ` set (game_stores conn))
       \<and> (gid \<notin> fst ` set (game_tags conn) \<longrightarrow> needs_enrich conn gid)"
  using assms
  by (simp add: needs_enrich_def any_py_def coalesce_is_empty_iff fetchone_is_None_iff
      del: set_map) (auto simp: image_iff)

theorem needs_enrich_iff_witness:
  "needs_enrich
     \<lparr>tables = ensure_schema_tables,
      games = [(7, \<lparr>g_slug = Some ''s'', g_name = Some ''n'', g_released = Some ''2020-01-01'',
                      g_rating = Some 4, g_description = Some ''about'',
                      g_website = Some ''https://w'', g_age_rating = Some ''Teen'',
                      g_cover_image = Some ''https://c'', g_metascore_number = Some 82,
                      g_metascore_color = Some ''green''\<rparr>)],
      game_developers = [(7, ''dev'')], game_publishers = [(7, ''pub'')],
      game_tags = [(8, ''tag of another item'')],
      game_series_links = [(7, ''s'', ''u'')], game_additions_links = [(7, ''a'', ''u'')],
      screenshots = [], genres = [(4, ''Action'')], game_genres = [(7, 4)],
      platforms = [(1, ''PC'')], game_platforms = [(7, 1)], media = [],
      stores = [], game_stores = [(7, 1, None)], game_suggestions = []\<rparr> 7"
  using needs_enrich_iff
    [of "\<lparr>tables = ensure_schema_tables,
      games = [(7, \<lparr>g_slug = Some ''s'', g_name = Some ''n'', g_released = Some ''2020-01-01'',
                      g_rating = Some 4, g_description = Some ''about'',
                      g_website = Some ''https://w'', g_age_rating = Some ''Teen'',
                      g_cover_image = Some ''https://c'', g_metascore_number = Some 82,
                      g_metascore_color = Some ''green''\<rparr>)],
      game_developers = [(7, ''dev'')], game_publishers = [(7, ''pub'')],
      game_tags = [(8, ''tag of another item'')],
      game_series_links = [(7, ''s'', ''u'')], game_additions_links = [(7, ''a'', ''u'')],
      screenshots = [], genres = [(4, ''Action'')], game_genres = [(7, 4)],
      platforms = [(1, ''PC'')], game_platforms = [(7, 1)], media = [],
      stores = [], game_stores = [(7, 1, None)], game_suggestions = []\<rparr>" 7
     "\<lparr>g_slug = Some ''s'', g_name = Some ''n'', g_released = Some ''2020-01-01'',
                      g_rating = Some 4, g_description = Some ''about'',
                      g_website = Some ''https://w'', g_age_rating = Some ''Teen'',
                      g_cover_image = Some ''https://c'', g_metascore_number = Some 82,
                      g_metascore_color = Some ''green''\<rparr>"]
  by (simp add: select_game_def)

subsection \<open>Item upsert\<close>












subsection \<open>Transport client\<close>





subsection \<open>Screenshot pagination\<close>

lemma normalize_shot: "normalize_rawg_image (sh_image shot) = sh_image shot"
  unfolding shot_def by code_simp

lemma scan_results_replicate:
  assumes "int (length out) < C"
  shows "scan_results (replicate k shot) C out =
         (if C \<le> int (length out + k) then (out @ replicate (nat C - length out) shot, True)
          else (out @ replicate k shot, False))"
  using assms
proof (induction k arbitrary: out)
  case 0
  then show ?case by simp
next
  case (Suc k)
  have img: "or_None (sh_image shot) = Some ''https://media.rawg.io/media/screenshots/a.jpg''"
    by (simp add: shot_def or_None_def)
  have n: "normalize_rawg_image (Some ''https://media.rawg.io/media/screenshots/a.jpg'') = sh_image shot"
    using normalize_shot by (simp add: shot_def)
  have s: "\<lparr>sh_image = sh_image shot, sh_width = sh_width shot, sh_height = sh_height shot\<rparr> = shot"
    by simp
  show ?case
  proof (cases "C \<le> int (length out) + 1")
    case True
    with Suc.prems have "nat C - length out = 1" by linarith
    with True show ?thesis
      by (simp add: img n s Let_def)
  next
    case False
    then have "int (length (out @ [shot])) < C" by simp
    moreover have "nat C - length out = Suc (nat C - Suc (length out))"
      using False by linarith
    ultimately show ?thesis
      using Suc.IH [of "out @ [shot]"] False
      by (simp add: img n s Let_def replicate_app_Cons_same)
  qed
qed

lemma ceil_div_page:
  fixes c ps q :: nat
  assumes "q * ps < c" and "c \<le> q * ps + ps"
  shows "(c + ps - Suc 0) div ps = Suc q"
proof -
  from assms have ps: "0 < ps" by (cases ps) auto
  define r where "r = c - q * ps"
  with assms have r: "c = q * ps + r" "0 < r" "r \<le> ps" by auto
  then have "c + ps - 1 = (r - 1) + Suc q * ps" by simp
  then have "(c + ps - 1) div ps = Suc q + (r - 1) div ps"
    using ps by (simp only: div_mult_self1) 
  moreover have "(r - 1) div ps = 0" using r ps by simp
  ultimately show ?thesis by simp
qed

lemma rawg_get_paged:
  "q < N \<Longrightarrow> rawg_get (paged_screenshots N ps (int q + 1)) 3 =
     (Inr (Some \<lparr>pg_results = replicate ps shot,
                     pg_next = (if Suc q < N then Some ''next'' else None)\<rparr>), 1)"
  by (simp add: rawg_get_def numeral_3_eq_3 paged_screenshots_def)

lemma screenshots_loop_paged_step:
  assumes "q < N" and "int (length out) < C"
  shows "screenshots_loop (paged_screenshots N ps) C (int q + 1) out q =
     (if C \<le> int (length out + ps)
      then Some (Inr (out @ replicate (nat C - length out) shot), Suc q)
      else if Suc q < N
      then screenshots_loop (paged_screenshots N ps) C (int (Suc q) + 1)
             (out @ replicate ps shot) (Suc q)
      else Some (Inr (out @ replicate ps shot), Suc q))"
  using assms
  by (subst screenshots_loop.simps)
     (simp add: rawg_get_paged scan_results_replicate or_empty_page_def or_None_def)

lemma screenshots_loop_paged:
  assumes "0 < ps" and "q < N" and "length out = q * ps" and "int (q * ps) < C"
  shows "screenshots_loop (paged_screenshots N ps) C (int q + 1) out q =
           Some (Inr (out @ replicate (min (N * ps) (nat C) - q * ps) shot),
                 (min (N * ps) (nat C) + ps - Suc 0) div ps)"
  using assms
proof (induction d \<equiv> "N - Suc q" arbitrary: q out)
  case 0
  define M where "M = min (N * ps) (nat C)"
  from 0 have N: "N = Suc q" by simp
  then have Nps: "N * ps = q * ps + ps" by simp
  have len: "int (length out) < C" using 0 by simp
  note step = screenshots_loop_paged_step [OF "0.prems"(2) len, of ps]
  show ?case
  proof (cases "C \<le> int (length out + ps)")
    case True
    have c: "q * ps < nat C" "nat C \<le> q * ps + ps" using True 0 by linarith+
    then have m: "M = nat C" using Nps by (simp add: M_def)
    from c have d: "(nat C + ps - Suc 0) div ps = Suc q" by (rule ceil_div_page)
    from step True have "screenshots_loop (paged_screenshots N ps) C (int q + 1) out q =
       Some (Inr (out @ replicate (nat C - length out) shot), Suc q)" by simp
    then show ?thesis
      unfolding M_def [symmetric] m d "0.prems"(3) .
  next
    case False
    then have "q * ps + ps < nat C" using 0 by linarith
    then have m: "M = q * ps + ps" using Nps by (simp add: M_def)
    have d: "(q * ps + ps + ps - Suc 0) div ps = Suc q"
      using ceil_div_page [of q ps "q * ps + ps"] 0 by simp
    have e: "q * ps + ps - q * ps = ps" by simp
    from step False N have "screenshots_loop (paged_screenshots N ps) C (int q + 1) out q =
       Some (Inr (out @ replicate ps shot), Suc q)" by simp
    then show ?thesis
      unfolding M_def [symmetric] m d e .
  qed
next
  case (Suc d)
  define M where "M = min (N * ps) (nat C)"
  from Suc have N: "Suc q < N" by simp
  then have le: "q * ps + ps \<le> N * ps"
    using mult_le_mono1 [of "Suc q" N ps] by simp
  have len: "int (length out) < C" using Suc.prems by simp
  note step = screenshots_loop_paged_step [OF Suc.prems(2) len, of ps]
  show ?case
  proof (cases "C \<le> int (length out + ps)")
    case True
    have c: "q * ps < nat C" "nat C \<le> q * ps + ps" using True Suc.prems by linarith+
    then have m: "M = nat C" using le by (simp add: M_def)
    from c have d: "(nat C + ps - Suc 0) div ps = Suc q" by (rule ceil_div_page)
    from step True have "screenshots_loop (paged_screenshots N ps) C (int q + 1) out q =
       Some (Inr (out @ replicate (nat C - length out) shot), Suc q)" by simp
    then show ?thesis
      unfolding M_def [symmetric] m d Suc.prems(3) .
  next
    case False
    then have big: "q * ps + ps < nat C" using Suc.prems by linarith
    have ih: "screenshots_loop (paged_screenshots N ps) C (int (Suc q) + 1)
             (out @ replicate ps shot) (Suc q) =
           Some (Inr ((out @ replicate ps shot)
                   @ replicate (min (N * ps) (nat C) - Suc q * ps) shot),
                 (min (N * ps) (nat C) + ps - Suc 0) div ps)"
    proof (rule Suc.hyps(1))
      show "d = N - Suc (Suc q)" using Suc.hyps(2) by simp
      show "0 < ps" by (rule Suc.prems(1))
      show "Suc q < N" by (rule N)
      show "length (out @ replicate ps shot) = Suc q * ps" using Suc.prems(3) by simp
      have "Suc q * ps = q * ps + ps" by simp
      then show "int (Suc q * ps) < C" using big by linarith
    qed
    have "Suc q * ps \<le> M" using le big by (simp add: M_def)
    then have "ps + (M - Suc q * ps) = M - q * ps" by simp
    then have r: "replicate ps shot @ replicate (M - Suc q * ps) shot
        = replicate (M - q * ps) shot"
      by (simp add: replicate_add [symmetric] del: replicate_add)
    then have app: "(out @ replicate ps shot) @ replicate (M - Suc q * ps) shot
        = out @ replicate (M - q * ps) shot"
      by (simp only: append_assoc)
    from step False N have s: "screenshots_loop (paged_screenshots N ps) C (int q + 1) out q =
        screenshots_loop (paged_screenshots N ps) C (int (Suc q) + 1)
             (out @ replicate ps shot) (Suc q)" by simp
    show ?thesis
      unfolding M_def [symmetric] s ih [folded M_def] app ..
  qed
qed

text \<open>
  Claim C6, as the code has it. For a screenshots sub-resource of \<open>N \<ge> 1\<close> pages of
  \<open>page_size \<ge> 1\<close> entries, each carrying an image, and a soft cap \<open>C \<ge> 1\<close>, the crawler
  returns, and returns exactly \<open>min (N * page_size) C\<close> images after exactly
  \<open>ceil (min (N * page_size) C / page_size)\<close> page requests, which is \<open>N\<close> requests when
  the cap is not reached.
\<close>

theorem fetch_all_screenshots_paged:
  assumes "1 \<le> N" and "1 \<le> page_size" and "1 \<le> C"
  shows "fetch_all_screenshots (paged_upstream N page_size) game_id (int C) =
           Some (Inr (replicate (min (N * page_size) C) shot),
                 (min (N * page_size) C + page_size - 1) div page_size)
         \<and> (N * page_size \<le> C \<longrightarrow>
              (min (N * page_size) C + page_size - 1) div page_size = N)"
proof -
  have "screenshots_loop (paged_screenshots N page_size) (int C) (int 0 + 1) [] 0 =
           Some (Inr ([] @ replicate (min (N * page_size) (nat (int C)) - 0 * page_size) shot),
                 (min (N * page_size) (nat (int C)) + page_size - Suc 0) div page_size)"
    using assms by (intro screenshots_loop_paged) simp_all
  then have a: "fetch_all_screenshots (paged_upstream N page_size) game_id (int C) =
           Some (Inr (replicate (min (N * page_size) C) shot),
                 (min (N * page_size) C + page_size - 1) div page_size)"
    by (simp add: fetch_all_screenshots_def paged_upstream_def)
  have "(N * page_size + page_size - 1) div page_size = N"
    using assms ceil_div_page [of "N - 1" page_size "N * page_size"]
    by (cases N) simp_all
  with a show ?thesis by (simp add: min_def)
qed

theorem fetch_all_screenshots_paged_witness:
  "(1::nat) \<le> 2 \<and> (1::nat) \<le> 3 \<and> (1::nat) \<le> 4
   \<and> fetch_all_screenshots (paged_upstream 2 3) 7 4 = Some (Inr [shot, shot, shot, shot], 2)"
proof -
  have r: "replicate (min (2 * 3) 4) shot = [shot, shot, shot, shot]"
    by (simp add: numeral_eq_Suc)
  have d: "(min (2 * 3) 4 + 3 - 1) div 3 = (2::nat)" by simp
  from fetch_all_screenshots_paged [of 2 3 4 7]
  have "fetch_all_screenshots (paged_upstream 2 3) 7 (int 4) =
           Some (Inr (replicate (min (2 * 3) 4) shot), (min (2 * 3) 4 + 3 - 1) div 3)"
    by simp
  then show ?thesis unfolding r d by simp
qed

lemma scan_results_single_cap0: "scan_results [shot] 0 [] = ([shot], True)"
proof -
  have img: "or_None (sh_image shot) = Some ''https://media.rawg.io/media/screenshots/a.jpg''"
    by (simp add: shot_def or_None_def)
  have n: "normalize_rawg_image (Some ''https://media.rawg.io/media/screenshots/a.jpg'') = sh_image shot"
    using normalize_shot by (simp add: shot_def)
  have s: "\<lparr>sh_image = sh_image shot, sh_width = sh_width shot, sh_height = sh_height shot\<rparr> = shot"
    by simp
  show ?thesis by (simp add: img n s Let_def)
qed

text \<open>
  The claim as the specification words it fails for a cap of 0, which is tested only after
  an image is appended (one image comes back where \<open>min (N * page_size) C\<close> is 0), and for
  a sub-resource without pages, where one request is issued.
\<close>

theorem fetch_all_screenshots_cap_counterexample:
  "fetch_all_screenshots (paged_upstream 1 1) 7 0 = Some (Inr [shot], 1)
   \<and> min (1 * 1) (0::nat) = 0
   \<and> fetch_all_screenshots (paged_upstream 0 1) 7 5 = Some (Inr [], 1)
   \<and> (min (0 * 1) (5::nat) + 1 - 1) div 1 = 0"
proof -
  have g: "rawg_get (paged_screenshots (Suc 0) (Suc 0) 1) 3 =
     (Inr (Some \<lparr>pg_results = [shot], pg_next = None\<rparr>), 1)"
    using rawg_get_paged [of 0 1 1] by simp
  have a: "fetch_all_screenshots (paged_upstream 1 1) 7 0 = Some (Inr [shot], 1)"
    unfolding fetch_all_screenshots_def
    by (subst screenshots_loop.simps)
       (simp add: paged_upstream_def g or_empty_page_def scan_results_single_cap0
          del: scan_results.simps)
  have h: "rawg_get (paged_screenshots 0 (Suc 0) 1) 3 = (Inr None, 1)"
    by (simp add: paged_screenshots_def rawg_get_def numeral_3_eq_3)
  have b: "fetch_all_screenshots (paged_upstream 0 1) 7 5 = Some (Inr [], 1)"
    unfolding fetch_all_screenshots_def
    by (subst screenshots_loop.simps)
       (simp add: paged_upstream_def h or_empty_page_def or_None_def)
  from a b show ?thesis by simp
qed

subsection \<open>Suggestions\<close>


lemma suggestion_row_of_key [simp]:
  "sg_game_id (suggestion_row_of gid pos s) = gid"
  "sg_position (suggestion_row_of gid pos s) = pos"
  by (simp_all add: suggestion_row_of_def Let_def)






subsection \<open>Unexpected statuses\<close>

text \<open>
  Claim C8 does not hold of the code. When the detail request of the first orphan answers
  403, \<open>raise_for_status\<close> raises in \<open>_rawg_get\<close>, nothing in \<open>fetch_details\<close>,
  \<open>enrich_one\<close> or \<open>main\<close> catches the exception, and the run ends there: the second
  orphan, whose request would succeed, is never processed and no failure is counted.
\<close>

theorem main_halts_on_unexpected_status:
  "fetch_details forbidden_upstream 1 = Inl (HTTPError 403)
   \<and> enrich_one forbidden_upstream 50 empty_db 1 = Some (Inl (HTTPError 403), empty_db)
   \<and> main_full forbidden_upstream 50 empty_db [1, 2] = Some (Inl (HTTPError 403), empty_db)
   \<and> map_option fst (enrich_one forbidden_upstream 50 empty_db 2) = Some (Inr True)"
proof -
  have d: "fetch_details forbidden_upstream 1 = Inl (HTTPError 403)"
    by (simp add: fetch_details_def forbidden_upstream_def no_upstream_def rawg_get_def
        always_def numeral_3_eq_3 raise_for_status_def)
  then have e: "enrich_one forbidden_upstream 50 empty_db 1 = Some (Inl (HTTPError 403), empty_db)"
    by (simp add: enrich_one_def)
  then have m: "main_full forbidden_upstream 50 empty_db [1, 2]
      = Some (Inl (HTTPError 403), empty_db)"
    by (simp add: main_full_def empty_db_def)
  have d2: "fetch_details forbidden_upstream 2 = Inr (Some (bare_details 2))"
    by (simp add: fetch_details_def forbidden_upstream_def no_upstream_def rawg_get_def
        always_def numeral_3_eq_3)
  have s: "fetch_all_screenshots forbidden_upstream 2 50 = Some (Inr [], 1)"
    unfolding fetch_all_screenshots_def
    by (subst screenshots_loop.simps)
       (simp add: forbidden_upstream_def no_upstream_def rawg_get_def always_def
          numeral_3_eq_3 or_empty_page_def or_None_def)
  have v: "fetch_movies forbidden_upstream 2 = Inr []"
    by (simp add: fetch_movies_def forbidden_upstream_def no_upstream_def rawg_get_def
        always_def numeral_3_eq_3 or_empty_page_def List.map_filter_simps)
  obtain conn1 where c: "upsert_game_core empty_db (normalize_details (bare_details 2))
      = Inr conn1"
    by (simp add: upsert_game_core_def Let_def normalize_details_def bare_details_def
        fits_int64_def opt_fits_int64_def)
  have l: "upsert_lists conn1 2 (normalize_details (bare_details 2)) = Inr conn1"
    by (simp add: upsert_lists_def Let_def normalize_details_def bare_details_def
        names_of_def)
  have "map_option fst (enrich_one forbidden_upstream 50 empty_db 2) = Some (Inr True)"
    by (simp add: enrich_one_def d2 c l s v Let_def split: sum.splits)
  with d e m show ?thesis by simp
qed


subsection \<open>Repeated enrichment\<close>

paragraph \<open>Insert-if-absent tables\<close>

lemma insert_or_ignore_many_Nil [simp]: "insert_or_ignore_many c [] t = t"
  by (simp add: insert_or_ignore_many_def)

lemma insert_or_ignore_many_Cons:
  "insert_or_ignore_many c (r # rows) t = insert_or_ignore_many c rows (insert_or_ignore c r t)"
  by (simp add: insert_or_ignore_many_def)

lemma insert_or_ignore_many_extends: "\<exists>ys. insert_or_ignore_many c rows t = t @ ys"
proof (induction rows arbitrary: t)
  case Nil
  then show ?case by simp
next
  case (Cons r rows)
  obtain ys where "insert_or_ignore_many c rows (insert_or_ignore c r t)
      = insert_or_ignore c r t @ ys"
    using Cons.IH by blast
  then show ?case
    by (auto simp add: insert_or_ignore_many_Cons insert_or_ignore_def)
qed

lemma insert_or_ignore_many_covered:
  "list_all (\<lambda>r. list_ex (c r) t) rows \<Longrightarrow> insert_or_ignore_many c rows t = t"
  by (induction rows) (simp_all add: insert_or_ignore_many_Cons insert_or_ignore_def)

lemma insert_or_ignore_many_covers:
  assumes "\<And>r. c r r"
  shows "list_all (\<lambda>r. list_ex (c r) (insert_or_ignore_many c rows t)) rows"
proof (induction rows arbitrary: t)
  case Nil
  then show ?case by simp
next
  case (Cons r rows)
  have "list_ex (c r) (insert_or_ignore c r t)"
    using assms by (simp add: insert_or_ignore_def list_ex_iff)
  moreover obtain ys where "insert_or_ignore_many c rows (insert_or_ignore c r t)
      = insert_or_ignore c r t @ ys"
    using insert_or_ignore_many_extends by blast
  ultimately have "list_ex (c r) (insert_or_ignore_many c rows (insert_or_ignore c r t))"
    by (auto simp add: list_ex_iff)
  with Cons.IH show ?case by (simp add: insert_or_ignore_many_Cons)
qed

lemma covered_extends:
  "list_all (\<lambda>r. list_ex (c r) t) rows \<Longrightarrow> list_all (\<lambda>r. list_ex (c r) (t @ ys)) rows"
  by (induction rows) (auto simp: list_ex_iff)

lemma insert_or_ignore_many_idem:
  assumes "\<And>r. c r r"
  shows "insert_or_ignore_many c rows (insert_or_ignore_many c rows t)
       = insert_or_ignore_many c rows t"
  using insert_or_ignore_many_covers [of c rows t, OF assms]
  by (rule insert_or_ignore_many_covered)

lemma insert_or_ignore_many_absorb:
  assumes "\<And>r. c r r"
  shows "insert_or_ignore_many c rows
           (insert_or_ignore_many c rows' (insert_or_ignore_many c rows t))
       = insert_or_ignore_many c rows' (insert_or_ignore_many c rows t)"
proof -
  obtain ys where "insert_or_ignore_many c rows' (insert_or_ignore_many c rows t)
      = insert_or_ignore_many c rows t @ ys"
    using insert_or_ignore_many_extends by blast
  moreover have "list_all (\<lambda>r. list_ex (c r) (insert_or_ignore_many c rows t @ ys)) rows"
    using insert_or_ignore_many_covers [of c rows t, OF assms] by (rule covered_extends)
  ultimately show ?thesis by (simp add: insert_or_ignore_many_covered)
qed

lemma whole_row_refl: "whole_row r r"
  by (simp add: whole_row_def)

lemma game_store_conflict_refl: "game_store_conflict r r"
  by (simp add: game_store_conflict_def)

lemma media_conflict_refl: "media_conflict r r"
  by (simp add: media_conflict_def)

lemma related_link_conflict_refl: "related_link_conflict True r r"
  by (simp add: related_link_conflict_def)

lemmas insert_idem =
  insert_or_ignore_many_idem [of whole_row, OF whole_row_refl]
  insert_or_ignore_many_idem [of "related_link_conflict True", OF related_link_conflict_refl]
  insert_or_ignore_many_idem [of game_store_conflict, OF game_store_conflict_refl]
  insert_or_ignore_many_idem [of media_conflict, OF media_conflict_refl]
  insert_or_ignore_many_absorb [of media_conflict, OF media_conflict_refl]

paragraph \<open>The legacy table\<close>

lemma legacy_rows_gid: "r \<in> set (legacy_rows gid pos images) \<Longrightarrow> fst r = gid"
  by (induction gid pos images rule: legacy_rows.induct) (auto split: option.splits if_splits)

lemma legacy_insert_idem:
  "legacy_insert gid (legacy_rows gid pos images)
     (legacy_insert gid (legacy_rows gid pos images) t)
   = legacy_insert gid (legacy_rows gid pos images) t"
proof (cases "legacy_rows gid pos images")
  case Nil
  then show ?thesis by (simp add: legacy_insert_def)
next
  case (Cons r rows)
  then have "fst r = gid" using legacy_rows_gid [of r gid pos images] by simp
  with Cons show ?thesis
    by (auto simp add: legacy_insert_def fetchone_is_None_iff)
qed

paragraph \<open>Replaced rows\<close>

lemma insert_or_replace_many_distinct:
  assumes "distinct (map sg_position rows)" and "\<forall>r \<in> set rows. sg_game_id r = gid"
  shows "insert_or_replace_many suggestion_conflict rows t =
           filter (\<lambda>r. \<not> (sg_game_id r = gid \<and> sg_position r \<in> sg_position ` set rows)) t @ rows"
  using assms
proof (induction rows arbitrary: t)
  case Nil
  then show ?case by (simp add: insert_or_replace_many_def)
next
  case (Cons x rows)
  have "insert_or_replace_many suggestion_conflict (x # rows) t =
      insert_or_replace_many suggestion_conflict rows
        (insert_or_replace suggestion_conflict x t)"
    by (simp add: insert_or_replace_many_def)
  also have "\<dots> = filter (\<lambda>r. \<not> (sg_game_id r = gid \<and> sg_position r \<in> sg_position ` set rows))
      (insert_or_replace suggestion_conflict x t) @ rows"
    using Cons by simp
  also have "\<dots> = filter (\<lambda>r. \<not> (sg_game_id r = gid \<and> sg_position r \<in> sg_position ` set (x # rows))) t
      @ x # rows"
  proof -
    have "filter (\<lambda>r. \<not> (sg_game_id r = gid \<and> sg_position r \<in> sg_position ` set rows))
        (filter (\<lambda>r. \<not> suggestion_conflict x r) t)
        = filter (\<lambda>r. \<not> (sg_game_id r = gid \<and> sg_position r \<in> sg_position ` set (x # rows))) t"
      using Cons.prems by (induction t) (auto simp: suggestion_conflict_def)
    moreover have "sg_position x \<notin> sg_position ` set rows" using Cons.prems by auto
    ultimately show ?thesis by (simp add: insert_or_replace_def)
  qed
  finally show ?case .
qed

lemma suggestion_rows_positions:
  "r \<in> set (suggestion_rows gid pos xs) \<Longrightarrow> sg_game_id r = gid \<and> pos \<le> sg_position r"
  by (induction xs arbitrary: pos) (fastforce simp add: suggestion_row_of_def Let_def)+

lemma suggestion_rows_distinct: "distinct (map sg_position (suggestion_rows gid pos xs))"
proof (induction xs arbitrary: pos)
  case Nil
  then show ?case by simp
next
  case (Cons x xs)
  have "pos \<notin> sg_position ` set (suggestion_rows gid (pos + 1) xs)"
    using suggestion_rows_positions [of _ gid "pos + 1" xs] by fastforce
  with Cons show ?case by (simp add: suggestion_row_of_def Let_def)
qed

lemma insert_or_replace_many_idem:
  "insert_or_replace_many suggestion_conflict (suggestion_rows gid pos xs)
     (insert_or_replace_many suggestion_conflict (suggestion_rows gid pos xs) t)
   = insert_or_replace_many suggestion_conflict (suggestion_rows gid pos xs) t"
proof -
  let ?rows = "suggestion_rows gid pos xs"
  have d: "distinct (map sg_position ?rows)" by (rule suggestion_rows_distinct)
  have g: "\<forall>r \<in> set ?rows. sg_game_id r = gid"
    using suggestion_rows_positions by blast
  have "filter (\<lambda>r. \<not> (sg_game_id r = gid \<and> sg_position r \<in> sg_position ` set ?rows)) ?rows = []"
    using g by (auto simp: filter_empty_conv)
  then show ?thesis
    unfolding insert_or_replace_many_distinct [OF d g] by simp
qed

paragraph \<open>What each step does to the relation tables\<close>

text \<open>On a store of \<open>db_prepare.py\<close> the first name list that is not empty ends the
  run.\<close>

lemma upsert_lists_db_prepare:
  "tables conn = db_prepare_tables \<Longrightarrow> names_of (d_developers details) \<noteq> [] \<Longrightarrow>
     upsert_lists conn gid details = Inl OperationalError"
  by (simp add: upsert_lists_def Let_def db_prepare_tables_def)

lemma upsert_game_core_tables:
  assumes "upsert_game_core conn details = Inr conn'"
  shows "tables conn' = tables conn"
    and "game_developers conn' = game_developers conn"
    and "game_publishers conn' = game_publishers conn"
    and "game_tags conn' = game_tags conn"
    and "game_genres conn' = game_genres conn"
    and "game_platforms conn' = game_platforms conn"
    and "game_series_links conn' = game_series_links conn"
    and "game_additions_links conn' = game_additions_links conn"
    and "game_stores conn' = game_stores conn"
    and "media conn' = media conn"
    and "screenshots conn' = screenshots conn"
    and "game_suggestions conn' = game_suggestions conn"
  using assms
  by (auto simp add: upsert_game_core_def insert_or_ignore_game_def update_game_def Let_def
      split: option.splits if_splits)

lemma upsert_lists_tables:
  assumes "upsert_lists conn gid details = Inr conn'"
  shows "tables conn' = tables conn"
    and "game_developers conn' = insert_or_ignore_many whole_row
       (map (\<lambda>d. (gid, strip d)) (names_of (d_developers details))) (game_developers conn)"
    and "game_publishers conn' = insert_or_ignore_many whole_row
       (map (\<lambda>p. (gid, strip p)) (names_of (d_publishers details))) (game_publishers conn)"
    and "game_tags conn' = insert_or_ignore_many whole_row
       (map (\<lambda>t. (gid, strip t)) (names_of (d_tags details))) (game_tags conn)"
    and "game_genres conn' = game_genres conn"
    and "game_platforms conn' = game_platforms conn"
    and "game_series_links conn' = game_series_links conn"
    and "game_additions_links conn' = game_additions_links conn"
    and "game_stores conn' = game_stores conn"
    and "media conn' = media conn"
    and "screenshots conn' = screenshots conn"
    and "game_suggestions conn' = game_suggestions conn"
  using assms by (auto simp add: upsert_lists_def Let_def split: if_splits)


lemma upsert_game_core_again:
  "upsert_game_core conn details = Inl e \<Longrightarrow> upsert_game_core conn' details = Inl e"
  "upsert_game_core conn details = Inr c \<Longrightarrow> \<exists>c'. upsert_game_core conn' details = Inr c'"
  by (auto simp add: upsert_game_core_def Let_def split: if_splits)

lemma upsert_lists_again:
  assumes "tables conn' = tables conn"
  shows "upsert_lists conn gid details = Inl e \<Longrightarrow> upsert_lists conn' gid details = Inl e"
    and "upsert_lists conn gid details = Inr c \<Longrightarrow> \<exists>c'. upsert_lists conn' gid details = Inr c'"
  using assms by (auto simp add: upsert_lists_def Let_def split: if_splits)

lemma fold_upsert_genre_tables:
  "tables (fold (upsert_genre gid) gs conn) = tables conn"
  "game_developers (fold (upsert_genre gid) gs conn) = game_developers conn"
  "game_publishers (fold (upsert_genre gid) gs conn) = game_publishers conn"
  "game_tags (fold (upsert_genre gid) gs conn) = game_tags conn"
  "game_genres (fold (upsert_genre gid) gs conn) =
     insert_or_ignore_many whole_row
       (List.map_filter
          (\<lambda>g. case (or_None_num (ij_id g), or_None (ij_name g)) of
                  (Some gid_raw, Some gname) \<Rightarrow> Some (gid, gid_raw)
                | _ \<Rightarrow> None) gs)
       (game_genres conn)"
  "game_platforms (fold (upsert_genre gid) gs conn) = game_platforms conn"
  "game_series_links (fold (upsert_genre gid) gs conn) = game_series_links conn"
  "game_additions_links (fold (upsert_genre gid) gs conn) = game_additions_links conn"
  "game_stores (fold (upsert_genre gid) gs conn) = game_stores conn"
  "media (fold (upsert_genre gid) gs conn) = media conn"
  "screenshots (fold (upsert_genre gid) gs conn) = screenshots conn"
  "game_suggestions (fold (upsert_genre gid) gs conn) = game_suggestions conn"
  by (induction gs arbitrary: conn;
      simp add: upsert_genre_def List.map_filter_simps insert_or_ignore_many_Cons
        split: option.splits)+

lemma fold_upsert_platform_tables:
  "tables (fold (upsert_platform gid) ps conn) = tables conn"
  "game_developers (fold (upsert_platform gid) ps conn) = game_developers conn"
  "game_publishers (fold (upsert_platform gid) ps conn) = game_publishers conn"
  "game_tags (fold (upsert_platform gid) ps conn) = game_tags conn"
  "game_genres (fold (upsert_platform gid) ps conn) = game_genres conn"
  "game_platforms (fold (upsert_platform gid) ps conn) =
     insert_or_ignore_many whole_row
       (List.map_filter
          (\<lambda>p. case pe_platform p of
                  None \<Rightarrow> None
                | Some plat \<Rightarrow>
                    (case (or_None_num (ij_id plat), or_None (ij_name plat)) of
                       (Some pid_raw, Some pname) \<Rightarrow> Some (gid, pid_raw)
                     | _ \<Rightarrow> None)) ps)
       (game_platforms conn)"
  "game_series_links (fold (upsert_platform gid) ps conn) = game_series_links conn"
  "game_additions_links (fold (upsert_platform gid) ps conn) = game_additions_links conn"
  "game_stores (fold (upsert_platform gid) ps conn) = game_stores conn"
  "media (fold (upsert_platform gid) ps conn) = media conn"
  "screenshots (fold (upsert_platform gid) ps conn) = screenshots conn"
  "game_suggestions (fold (upsert_platform gid) ps conn) = game_suggestions conn"
  by (induction ps arbitrary: conn;
      simp add: upsert_platform_def List.map_filter_simps insert_or_ignore_many_Cons
        split: option.splits)+

lemma upsert_genres_platforms_tables:
  "tables (upsert_genres_platforms conn gid details) = tables conn"
  "game_developers (upsert_genres_platforms conn gid details) = game_developers conn"
  "game_publishers (upsert_genres_platforms conn gid details) = game_publishers conn"
  "game_tags (upsert_genres_platforms conn gid details) = game_tags conn"
  "game_genres (upsert_genres_platforms conn gid details) = insert_or_ignore_many whole_row
       (List.map_filter
          (\<lambda>g. case (or_None_num (ij_id g), or_None (ij_name g)) of
                  (Some gid_raw, Some gname) \<Rightarrow> Some (gid, gid_raw)
                | _ \<Rightarrow> None) (d_genres details))
       (game_genres conn)"
  "game_platforms (upsert_genres_platforms conn gid details) = insert_or_ignore_many whole_row
       (List.map_filter
          (\<lambda>p. case pe_platform p of
                  None \<Rightarrow> None
                | Some plat \<Rightarrow>
                    (case (or_None_num (ij_id plat), or_None (ij_name plat)) of
                       (Some pid_raw, Some pname) \<Rightarrow> Some (gid, pid_raw)
                     | _ \<Rightarrow> None)) (d_platforms details))
       (game_platforms conn)"
  "game_series_links (upsert_genres_platforms conn gid details) = game_series_links conn"
  "game_additions_links (upsert_genres_platforms conn gid details) = game_additions_links conn"
  "game_stores (upsert_genres_platforms conn gid details) = game_stores conn"
  "media (upsert_genres_platforms conn gid details) = media conn"
  "screenshots (upsert_genres_platforms conn gid details) = screenshots conn"
  "game_suggestions (upsert_genres_platforms conn gid details) = game_suggestions conn"
  by (simp_all add: upsert_genres_platforms_def fold_upsert_genre_tables
      fold_upsert_platform_tables)


lemma store_loop_rows:
  "snd (store_loop gid ss table rows_link) =
     rows_link @ List.map_filter
       (\<lambda>s. map_option (\<lambda>sid. (gid, sid, or_None (se_url s))) (store_id_of s)) ss"
  by (induction ss arbitrary: table rows_link)
     (simp_all add: List.map_filter_simps split: option.splits)

lemma upsert_store_links_tables:
  "tables (upsert_store_links conn gid details) = tables conn"
  "game_developers (upsert_store_links conn gid details) = game_developers conn"
  "game_publishers (upsert_store_links conn gid details) = game_publishers conn"
  "game_tags (upsert_store_links conn gid details) = game_tags conn"
  "game_genres (upsert_store_links conn gid details) = game_genres conn"
  "game_platforms (upsert_store_links conn gid details) = game_platforms conn"
  "game_series_links (upsert_store_links conn gid details) = game_series_links conn"
  "game_additions_links (upsert_store_links conn gid details) = game_additions_links conn"
  "game_stores (upsert_store_links conn gid details) = insert_or_ignore_many game_store_conflict
       (List.map_filter
          (\<lambda>s. map_option (\<lambda>sid. (gid, sid, or_None (se_url s))) (store_id_of s))
          (d_stores details))
       (game_stores conn)"
  "media (upsert_store_links conn gid details) = media conn"
  "screenshots (upsert_store_links conn gid details) = screenshots conn"
  "game_suggestions (upsert_store_links conn gid details) = game_suggestions conn"
  using store_loop_rows [of gid "d_stores details" "stores conn" "[]"]
  by (auto simp add: upsert_store_links_def Let_def split: prod.splits)

lemma upsert_links_tables:
  "tables (upsert_links up conn gid) = tables conn"
  "game_developers (upsert_links up conn gid) = game_developers conn"
  "game_publishers (upsert_links up conn gid) = game_publishers conn"
  "game_tags (upsert_links up conn gid) = game_tags conn"
  "game_genres (upsert_links up conn gid) = game_genres conn"
  "game_platforms (upsert_links up conn gid) = game_platforms conn"
  "game_series_links (upsert_links up conn gid) = insert_or_ignore_many (related_link_conflict (related_links_keyed (tables conn)))
       (case fst (rawg_get (up_game_series up gid) 3) of
          Inl e \<Rightarrow> []
        | Inr series \<Rightarrow> link_rows gid (pg_results (or_empty_page series)))
       (game_series_links conn)"
  "game_additions_links (upsert_links up conn gid) = insert_or_ignore_many (related_link_conflict (related_links_keyed (tables conn)))
       (case fst (rawg_get (up_additions up gid) 3) of
          Inl e \<Rightarrow> []
        | Inr adds \<Rightarrow> link_rows gid (pg_results (or_empty_page adds)))
       (game_additions_links conn)"
  "game_stores (upsert_links up conn gid) = game_stores conn"
  "media (upsert_links up conn gid) = media conn"
  "screenshots (upsert_links up conn gid) = screenshots conn"
  "game_suggestions (upsert_links up conn gid) = game_suggestions conn"
  by (simp_all add: upsert_links_def Let_def split: sum.splits)

lemma cover_fallback_from_images_tables:
  "tables (cover_fallback_from_images conn gid images) = tables conn"
  "game_developers (cover_fallback_from_images conn gid images) = game_developers conn"
  "game_publishers (cover_fallback_from_images conn gid images) = game_publishers conn"
  "game_tags (cover_fallback_from_images conn gid images) = game_tags conn"
  "game_genres (cover_fallback_from_images conn gid images) = game_genres conn"
  "game_platforms (cover_fallback_from_images conn gid images) = game_platforms conn"
  "game_series_links (cover_fallback_from_images conn gid images) = game_series_links conn"
  "game_additions_links (cover_fallback_from_images conn gid images) = game_additions_links conn"
  "game_stores (cover_fallback_from_images conn gid images) = game_stores conn"
  "media (cover_fallback_from_images conn gid images) = media conn"
  "screenshots (cover_fallback_from_images conn gid images) = screenshots conn"
  "game_suggestions (cover_fallback_from_images conn gid images) = game_suggestions conn"
  by (simp_all add: cover_fallback_from_images_def update_game_def
      split: option.splits list.splits)

lemma store_media_images_tables:
  "tables (store_media_images conn gid images) = tables conn"
  "game_developers (store_media_images conn gid images) = game_developers conn"
  "game_publishers (store_media_images conn gid images) = game_publishers conn"
  "game_tags (store_media_images conn gid images) = game_tags conn"
  "game_genres (store_media_images conn gid images) = game_genres conn"
  "game_platforms (store_media_images conn gid images) = game_platforms conn"
  "game_series_links (store_media_images conn gid images) = game_series_links conn"
  "game_additions_links (store_media_images conn gid images) = game_additions_links conn"
  "game_stores (store_media_images conn gid images) = game_stores conn"
  "media (store_media_images conn gid images) = insert_or_ignore_many media_conflict (image_rows gid 1 images) (media conn)"
  "screenshots (store_media_images conn gid images) = legacy_insert gid (legacy_rows gid 1 images) (screenshots conn)"
  "game_suggestions (store_media_images conn gid images) = game_suggestions conn"
  by (simp_all add: store_media_images_def legacy_insert_def Let_def)

lemma store_media_videos_tables:
  "tables (store_media_videos conn gid videos) = tables conn"
  "game_developers (store_media_videos conn gid videos) = game_developers conn"
  "game_publishers (store_media_videos conn gid videos) = game_publishers conn"
  "game_tags (store_media_videos conn gid videos) = game_tags conn"
  "game_genres (store_media_videos conn gid videos) = game_genres conn"
  "game_platforms (store_media_videos conn gid videos) = game_platforms conn"
  "game_series_links (store_media_videos conn gid videos) = game_series_links conn"
  "game_additions_links (store_media_videos conn gid videos) = game_additions_links conn"
  "game_stores (store_media_videos conn gid videos) = game_stores conn"
  "media (store_media_videos conn gid videos) = insert_or_ignore_many media_conflict (video_rows gid 1 videos) (media conn)"
  "screenshots (store_media_videos conn gid videos) = screenshots conn"
  "game_suggestions (store_media_videos conn gid videos) = game_suggestions conn"
  by (simp_all add: store_media_videos_def Let_def)

lemma store_suggestions_tables:
  "tables (store_suggestions conn gid suggestions) = tables conn"
  "game_developers (store_suggestions conn gid suggestions) = game_developers conn"
  "game_publishers (store_suggestions conn gid suggestions) = game_publishers conn"
  "game_tags (store_suggestions conn gid suggestions) = game_tags conn"
  "game_genres (store_suggestions conn gid suggestions) = game_genres conn"
  "game_platforms (store_suggestions conn gid suggestions) = game_platforms conn"
  "game_series_links (store_suggestions conn gid suggestions) = game_series_links conn"
  "game_additions_links (store_suggestions conn gid suggestions) = game_additions_links conn"
  "game_stores (store_suggestions conn gid suggestions) = game_stores conn"
  "media (store_suggestions conn gid suggestions) = media conn"
  "screenshots (store_suggestions conn gid suggestions) = screenshots conn"
  "game_suggestions (store_suggestions conn gid suggestions) = insert_or_replace_many suggestion_conflict
       (suggestion_rows gid 1 (take 8 suggestions)) (game_suggestions conn)"
  by (simp_all add: store_suggestions_def insert_or_replace_many_def)


lemmas step_tables =
  upsert_genres_platforms_tables upsert_store_links_tables upsert_links_tables
  cover_fallback_from_images_tables store_media_images_tables store_media_videos_tables
  store_suggestions_tables

lemmas table_idem = insert_idem legacy_insert_idem insert_or_replace_many_idem

paragraph \<open>A second run on keyed link tables\<close>

text \<open>
  Where the series and addition link tables have the key that \<open>ensure_schema\<close> declares,
  a second run of the enrichment on the same snapshot returns as the first did and
  leaves every row count as the first run left it.
\<close>

lemma enrich_one_twice_same_counts_keyed:
  assumes run: "enrich_one up max_images conn gid = Some (res, conn1)"
    and keyed: "related_links_keyed (tables conn)"
  shows "\<exists>conn2. enrich_one up max_images conn1 gid = Some (res, conn2)
           \<and> relation_counts conn2 = relation_counts conn1"
proof (cases "fetch_details up gid")
  case (Inl e)
  with run show ?thesis by (simp add: enrich_one_def)
next
  case (Inr fetched_opt)
  show ?thesis
  proof (cases fetched_opt)
    case None
    with Inr run show ?thesis by (simp add: enrich_one_def)
  next
    case (Some fetched)
    note d = Inr [unfolded Some]
    define details where "details = normalize_details fetched"
    show ?thesis
    proof (cases "upsert_game_core conn details")
      case (Inl e)
      with d run show ?thesis by (simp add: enrich_one_def Let_def details_def)
    next
      case core: (Inr a1)
      note t1 = upsert_game_core_tables [OF core]
      show ?thesis
      proof (cases "upsert_lists a1 gid details")
        case (Inl e)
        with d core run have r: "res = Inl e" "conn1 = a1"
          by (simp_all add: enrich_one_def Let_def details_def)
        obtain b1 where core2: "upsert_game_core a1 details = Inr b1"
          using upsert_game_core_again(2) [OF core] by blast
        note u1 = upsert_game_core_tables [OF core2]
        have "upsert_lists b1 gid details = Inl e"
          using upsert_lists_again(1) [OF u1(1) Inl] .
        with d core2 r show ?thesis
          by (simp add: enrich_one_def Let_def details_def [symmetric] relation_counts_def u1)
      next
        case lists: (Inr a2)
        note t2 = upsert_lists_tables [OF lists]
        have again: "\<exists>b1 b2. upsert_game_core c details = Inr b1
            \<and> upsert_lists b1 gid details = Inr b2
            \<and> tables b2 = tables c
            \<and> game_genres b2 = game_genres c \<and> game_platforms b2 = game_platforms c
            \<and> game_series_links b2 = game_series_links c
            \<and> game_additions_links b2 = game_additions_links c
            \<and> game_stores b2 = game_stores c \<and> media b2 = media c
            \<and> screenshots b2 = screenshots c
            \<and> game_suggestions b2 = game_suggestions c
            \<and> game_developers b2 = insert_or_ignore_many whole_row
                   (map (\<lambda>d. (gid, strip d)) (names_of (d_developers details)))
                   (game_developers c)
            \<and> game_publishers b2 = insert_or_ignore_many whole_row
                   (map (\<lambda>p. (gid, strip p)) (names_of (d_publishers details)))
                   (game_publishers c)
            \<and> game_tags b2 = insert_or_ignore_many whole_row
                   (map (\<lambda>t. (gid, strip t)) (names_of (d_tags details)))
                   (game_tags c)"
          if c: "tables c = tables conn" for c
        proof -
          obtain b1 where core2: "upsert_game_core c details = Inr b1"
            using upsert_game_core_again(2) [OF core] by blast
          note u1 = upsert_game_core_tables [OF core2]
          have "tables b1 = tables a1" using u1(1) t1(1) c by simp
          then obtain b2 where lists2: "upsert_lists b1 gid details = Inr b2"
            using upsert_lists_again(2) [OF _ lists] by blast
          note u2 = upsert_lists_tables [OF lists2]
          show ?thesis
            using core2 lists2 by (simp add: u1 u2)
        qed
        have k: "related_links_keyed (tables a2)"
          using keyed t1(1) t2(1) by simp
        show ?thesis
        proof (cases "fetch_all_screenshots up gid max_images")
          case None
          with d core lists run show ?thesis
            by (simp add: enrich_one_def Let_def details_def)
        next
          case shots: (Some r)
          obtain outcome n where r: "r = (outcome, n)" by (cases r)
          show ?thesis
          proof (cases outcome)
            case (Inl e)
            with d core lists shots r run
            have c1: "conn1 = upsert_links up
                (upsert_store_links (upsert_genres_platforms a2 gid details) gid details) gid"
              and res: "res = Inl e"
              by (simp_all add: enrich_one_def Let_def details_def)
            have "tables conn1 = tables conn"
              by (simp add: c1 step_tables t1 t2)
            from again [OF this] obtain b1 b2 where
              "upsert_game_core conn1 details = Inr b1"
              "upsert_lists b1 gid details = Inr b2"
              and b: "tables b2 = tables conn1" "game_genres b2 = game_genres conn1"
                "game_platforms b2 = game_platforms conn1"
                "game_series_links b2 = game_series_links conn1"
                "game_additions_links b2 = game_additions_links conn1"
                "game_stores b2 = game_stores conn1" "media b2 = media conn1"
                "screenshots b2 = screenshots conn1"
                "game_suggestions b2 = game_suggestions conn1"
                "game_developers b2 = insert_or_ignore_many whole_row
                   (map (\<lambda>d. (gid, strip d)) (names_of (d_developers details)))
                   (game_developers conn1)"
                "game_publishers b2 = insert_or_ignore_many whole_row
                   (map (\<lambda>p. (gid, strip p)) (names_of (d_publishers details)))
                   (game_publishers conn1)"
                "game_tags b2 = insert_or_ignore_many whole_row
                   (map (\<lambda>t. (gid, strip t)) (names_of (d_tags details)))
                   (game_tags conn1)"
              by blast
            with d shots r Inl res k show ?thesis
              by (simp add: enrich_one_def Let_def details_def [symmetric] relation_counts_def
                  step_tables b c1 t2 table_idem)
          next
            case images: (Inr images)
            show ?thesis
            proof (cases "fetch_movies up gid")
              case (Inl e)
              with d core lists shots r images run
              have c1: "conn1 = store_media_images (cover_fallback_from_images
                  (upsert_links up
                  (upsert_store_links (upsert_genres_platforms a2 gid details) gid details) gid) gid images) gid images"
                and res: "res = Inl e"
                by (simp_all add: enrich_one_def Let_def details_def)
              have "tables conn1 = tables conn"
                by (simp add: c1 step_tables t1 t2)
              from again [OF this] obtain b1 b2 where
                "upsert_game_core conn1 details = Inr b1"
                "upsert_lists b1 gid details = Inr b2"
                and b: "tables b2 = tables conn1" "game_genres b2 = game_genres conn1"
                  "game_platforms b2 = game_platforms conn1"
                  "game_series_links b2 = game_series_links conn1"
                  "game_additions_links b2 = game_additions_links conn1"
                  "game_stores b2 = game_stores conn1" "media b2 = media conn1"
                  "screenshots b2 = screenshots conn1"
                  "game_suggestions b2 = game_suggestions conn1"
                  "game_developers b2 = insert_or_ignore_many whole_row
                     (map (\<lambda>d. (gid, strip d)) (names_of (d_developers details)))
                     (game_developers conn1)"
                  "game_publishers b2 = insert_or_ignore_many whole_row
                     (map (\<lambda>p. (gid, strip p)) (names_of (d_publishers details)))
                     (game_publishers conn1)"
                  "game_tags b2 = insert_or_ignore_many whole_row
                     (map (\<lambda>t. (gid, strip t)) (names_of (d_tags details)))
                     (game_tags conn1)"
                by blast
              with d shots r images Inl res k show ?thesis
                by (simp add: enrich_one_def Let_def details_def [symmetric] relation_counts_def
                    step_tables b c1 t2 table_idem)
            next
              case videos: (Inr videos)
              show ?thesis
              proof (cases "fetch_suggestions up gid 8")
                case (Inl e)
                with d core lists shots r images videos run
                have c1: "conn1 = store_media_videos (store_media_images (cover_fallback_from_images
                    (upsert_links up
                    (upsert_store_links (upsert_genres_platforms a2 gid details) gid details) gid) gid images) gid images) gid videos"
                  and res: "res = Inr True"
                  by (simp_all add: enrich_one_def Let_def details_def)
                have "tables conn1 = tables conn"
                  by (simp add: c1 step_tables t1 t2)
                from again [OF this] obtain b1 b2 where
                  "upsert_game_core conn1 details = Inr b1"
                  "upsert_lists b1 gid details = Inr b2"
                  and b: "tables b2 = tables conn1" "game_genres b2 = game_genres conn1"
                    "game_platforms b2 = game_platforms conn1"
                    "game_series_links b2 = game_series_links conn1"
                    "game_additions_links b2 = game_additions_links conn1"
                    "game_stores b2 = game_stores conn1" "media b2 = media conn1"
                    "screenshots b2 = screenshots conn1"
                    "game_suggestions b2 = game_suggestions conn1"
                    "game_developers b2 = insert_or_ignore_many whole_row
                       (map (\<lambda>d. (gid, strip d)) (names_of (d_developers details)))
                       (game_developers conn1)"
                    "game_publishers b2 = insert_or_ignore_many whole_row
                       (map (\<lambda>p. (gid, strip p)) (names_of (d_publishers details)))
                       (game_publishers conn1)"
                    "game_tags b2 = insert_or_ignore_many whole_row
                       (map (\<lambda>t. (gid, strip t)) (names_of (d_tags details)))
                       (game_tags conn1)"
                  by blast
                with d shots r images videos Inl res k show ?thesis
                  by (simp add: enrich_one_def Let_def details_def [symmetric] relation_counts_def
                      step_tables b c1 t2 table_idem)
              next
                case (Inr sugg)
                with d core lists shots r images videos run
                have c1: "conn1 = store_suggestions (store_media_videos (store_media_images (cover_fallback_from_images
                    (upsert_links up
                    (upsert_store_links (upsert_genres_platforms a2 gid details) gid details) gid) gid images) gid images) gid videos) gid sugg"
                  and res: "res = Inr True"
                  by (simp_all add: enrich_one_def Let_def details_def)
                have "tables conn1 = tables conn"
                  by (simp add: c1 step_tables t1 t2)
                from again [OF this] obtain b1 b2 where
                  "upsert_game_core conn1 details = Inr b1"
                  "upsert_lists b1 gid details = Inr b2"
                  and b: "tables b2 = tables conn1" "game_genres b2 = game_genres conn1"
                    "game_platforms b2 = game_platforms conn1"
                    "game_series_links b2 = game_series_links conn1"
                    "game_additions_links b2 = game_additions_links conn1"
                    "game_stores b2 = game_stores conn1" "media b2 = media conn1"
                    "screenshots b2 = screenshots conn1"
                    "game_suggestions b2 = game_suggestions conn1"
                    "game_developers b2 = insert_or_ignore_many whole_row
                       (map (\<lambda>d. (gid, strip d)) (names_of (d_developers details)))
                       (game_developers conn1)"
                    "game_publishers b2 = insert_or_ignore_many whole_row
                       (map (\<lambda>p. (gid, strip p)) (names_of (d_publishers details)))
                       (game_publishers conn1)"
                    "game_tags b2 = insert_or_ignore_many whole_row
                       (map (\<lambda>t. (gid, strip t)) (names_of (d_tags details)))
                       (game_tags conn1)"
                  by blast
                with d shots r images videos Inr res k show ?thesis
                  by (simp add: enrich_one_def Let_def details_def [symmetric] relation_counts_def
                      step_tables b c1 t2 table_idem)
              qed
            qed
          qed
        qed
      qed
    qed
  qed
qed

paragraph \<open>A second run on a store of \<open>db_prepare_BEFORE.py\<close>\<close>

lemma series_details: "fetch_details series_upstream 7 = Inr (Some (bare_details 7))"
  by (simp add: fetch_details_def series_upstream_def rawg_get_def always_def numeral_3_eq_3)

lemma series_shots: "fetch_all_screenshots series_upstream 7 50 = Some (Inr [], 1)"
  unfolding fetch_all_screenshots_def
  by (subst screenshots_loop.simps)
     (simp add: series_upstream_def no_upstream_def rawg_get_def always_def
        numeral_3_eq_3 or_empty_page_def or_None_def)

lemma series_movies: "fetch_movies series_upstream 7 = Inr []"
  by (simp add: fetch_movies_def series_upstream_def no_upstream_def rawg_get_def always_def
      numeral_3_eq_3 or_empty_page_def)

lemma series_sugg: "fetch_suggestions series_upstream 7 8 = Inr []"
  by (simp add: fetch_suggestions_def series_upstream_def no_upstream_def rawg_get_def
      always_def numeral_3_eq_3 or_empty_page_def)

lemma series_rows:
  "link_rows 7 [\<lparr>lk_name = Some ''Sample II'', lk_slug = Some ''sample-ii''\<rparr>]
     = [(7, ''Sample II'', ''https://rawg.io/games/sample-ii'')]"
  by code_simp

lemma link_rows_Nil: "link_rows gid [] = []"
  by (simp add: link_rows_def)

lemma series_run:
  "\<exists>conn'. enrich_one series_upstream 50 conn 7 = Some (Inr True, conn')
     \<and> tables conn' = tables conn
     \<and> game_series_links conn' =
         insert_or_ignore (related_link_conflict (related_links_keyed (tables conn)))
           (7, ''Sample II'', ''https://rawg.io/games/sample-ii'') (game_series_links conn)
     \<and> game_developers conn' = game_developers conn
     \<and> game_publishers conn' = game_publishers conn
     \<and> game_tags conn' = game_tags conn
     \<and> game_genres conn' = game_genres conn
     \<and> game_platforms conn' = game_platforms conn
     \<and> game_additions_links conn' = game_additions_links conn
     \<and> game_stores conn' = game_stores conn
     \<and> media conn' = media conn
     \<and> screenshots conn' = screenshots conn
     \<and> game_suggestions conn' = game_suggestions conn"
proof -
  define details where "details = normalize_details (bare_details 7)"
  have n: "names_of (d_developers details) = []" "names_of (d_publishers details) = []"
    "names_of (d_tags details) = []" "d_genres details = []" "d_platforms details = []"
    "d_stores details = []"
    by (simp_all add: details_def normalize_details_def bare_details_def names_of_def)
  obtain a1 where core: "upsert_game_core conn details = Inr a1"
    by (simp add: upsert_game_core_def Let_def details_def normalize_details_def
        bare_details_def fits_int64_def opt_fits_int64_def)
  note t1 = upsert_game_core_tables [OF core]
  have lists: "upsert_lists a1 7 details = Inr a1"
    by (simp add: upsert_lists_def Let_def n)
  have series: "fst (rawg_get (up_game_series series_upstream 7) 3) =
      Inr (Some \<lparr>pg_results = [\<lparr>lk_name = Some ''Sample II'', lk_slug = Some ''sample-ii''\<rparr>],
                 pg_next = None\<rparr>)"
    by (simp add: series_upstream_def rawg_get_def always_def numeral_3_eq_3)
  have adds: "fst (rawg_get (up_additions series_upstream 7) 3) = Inr None"
    by (simp add: series_upstream_def no_upstream_def rawg_get_def always_def numeral_3_eq_3)
  show ?thesis
    by (simp add: enrich_one_def series_details series_shots series_movies series_sugg
        Let_def details_def [symmetric] core lists step_tables t1 n series adds
        or_empty_page_def series_rows insert_or_ignore_many_def legacy_insert_def
        insert_or_replace_many_def link_rows_Nil)
qed

text \<open>
  Claim C2 does not hold of the code. On the empty store that \<open>db_prepare_BEFORE.py\<close> and
  \<open>ensure_schema\<close> leave, with an upstream whose series of item 7 has one entry, the
  first run of the enrichment of item 7 stores one series link and the second run, on the
  same snapshot, stores it again: the row count of \<open>game_series_links\<close> goes from 1 to 2.
  The table has no uniqueness there, because \<open>CREATE TABLE IF NOT EXISTS\<close> in
  \<open>ensure_schema\<close> does not touch the table that the older script created. On the store
  with the tables of \<open>ensure_schema\<close> the same two runs leave one row.
\<close>

theorem enrich_one_duplicates_series_links:
  "(\<exists>conn1 conn2.
      enrich_one series_upstream 50 before_db 7 = Some (Inr True, conn1)
      \<and> enrich_one series_upstream 50 conn1 7 = Some (Inr True, conn2)
      \<and> relation_counts conn1 = [0, 0, 0, 0, 0, 1, 0, 0, 0, 0, 0]
      \<and> relation_counts conn2 = [0, 0, 0, 0, 0, 2, 0, 0, 0, 0, 0]
      \<and> game_series_links conn2 =
          [(7, ''Sample II'', ''https://rawg.io/games/sample-ii''),
           (7, ''Sample II'', ''https://rawg.io/games/sample-ii'')])
   \<and> (\<exists>conn1 conn2.
        enrich_one series_upstream 50 empty_db 7 = Some (Inr True, conn1)
        \<and> enrich_one series_upstream 50 conn1 7 = Some (Inr True, conn2)
        \<and> relation_counts conn1 = [0, 0, 0, 0, 0, 1, 0, 0, 0, 0, 0]
        \<and> relation_counts conn2 = [0, 0, 0, 0, 0, 1, 0, 0, 0, 0, 0])"
proof (intro conjI)
  obtain conn1 where r1: "enrich_one series_upstream 50 before_db 7 = Some (Inr True, conn1)"
    and c1: "tables conn1 = tables before_db"
      "game_series_links conn1 =
         insert_or_ignore (related_link_conflict (related_links_keyed (tables before_db)))
           (7, ''Sample II'', ''https://rawg.io/games/sample-ii'') (game_series_links before_db)"
      "game_developers conn1 = game_developers before_db"
      "game_publishers conn1 = game_publishers before_db"
      "game_tags conn1 = game_tags before_db"
      "game_genres conn1 = game_genres before_db"
      "game_platforms conn1 = game_platforms before_db"
      "game_additions_links conn1 = game_additions_links before_db"
      "game_stores conn1 = game_stores before_db"
      "media conn1 = media before_db"
      "screenshots conn1 = screenshots before_db"
      "game_suggestions conn1 = game_suggestions before_db"
    using series_run [of before_db] by blast
  obtain conn2 where r2: "enrich_one series_upstream 50 conn1 7 = Some (Inr True, conn2)"
    and c2: "tables conn2 = tables conn1"
      "game_series_links conn2 =
         insert_or_ignore (related_link_conflict (related_links_keyed (tables conn1)))
           (7, ''Sample II'', ''https://rawg.io/games/sample-ii'') (game_series_links conn1)"
      "game_developers conn2 = game_developers conn1"
      "game_publishers conn2 = game_publishers conn1"
      "game_tags conn2 = game_tags conn1"
      "game_genres conn2 = game_genres conn1"
      "game_platforms conn2 = game_platforms conn1"
      "game_additions_links conn2 = game_additions_links conn1"
      "game_stores conn2 = game_stores conn1"
      "media conn2 = media conn1"
      "screenshots conn2 = screenshots conn1"
      "game_suggestions conn2 = game_suggestions conn1"
    using series_run [of conn1] by blast
  have "relation_counts conn1 = [0, 0, 0, 0, 0, 1, 0, 0, 0, 0, 0]"
    by (simp add: relation_counts_def c1 before_db_def empty_db_def
        db_prepare_BEFORE_tables_def insert_or_ignore_def related_link_conflict_def)
  moreover have "game_series_links conn2 =
          [(7, ''Sample II'', ''https://rawg.io/games/sample-ii''),
           (7, ''Sample II'', ''https://rawg.io/games/sample-ii'')]"
    by (simp add: c2 c1 before_db_def empty_db_def
        db_prepare_BEFORE_tables_def insert_or_ignore_def related_link_conflict_def)
  moreover have "relation_counts conn2 = [0, 0, 0, 0, 0, 2, 0, 0, 0, 0, 0]"
    by (simp add: relation_counts_def c2 c1 before_db_def empty_db_def
        db_prepare_BEFORE_tables_def insert_or_ignore_def related_link_conflict_def)
  ultimately show "\<exists>conn1 conn2.
      enrich_one series_upstream 50 before_db 7 = Some (Inr True, conn1)
      \<and> enrich_one series_upstream 50 conn1 7 = Some (Inr True, conn2)
      \<and> relation_counts conn1 = [0, 0, 0, 0, 0, 1, 0, 0, 0, 0, 0]
      \<and> relation_counts conn2 = [0, 0, 0, 0, 0, 2, 0, 0, 0, 0, 0]
      \<and> game_series_links conn2 =
          [(7, ''Sample II'', ''https://rawg.io/games/sample-ii''),
           (7, ''Sample II'', ''https://rawg.io/games/sample-ii'')]"
    using r1 r2 by blast
next
  obtain conn1 where r1: "enrich_one series_upstream 50 empty_db 7 = Some (Inr True, conn1)"
    and c1: "tables conn1 = tables empty_db"
      "game_series_links conn1 =
         insert_or_ignore (related_link_conflict (related_links_keyed (tables empty_db)))
           (7, ''Sample II'', ''https://rawg.io/games/sample-ii'') (game_series_links empty_db)"
      "game_developers conn1 = game_developers empty_db"
      "game_publishers conn1 = game_publishers empty_db"
      "game_tags conn1 = game_tags empty_db"
      "game_genres conn1 = game_genres empty_db"
      "game_platforms conn1 = game_platforms empty_db"
      "game_additions_links conn1 = game_additions_links empty_db"
      "game_stores conn1 = game_stores empty_db"
      "media conn1 = media empty_db"
      "screenshots conn1 = screenshots empty_db"
      "game_suggestions conn1 = game_suggestions empty_db"
    using series_run [of empty_db] by blast
  obtain conn2 where r2: "enrich_one series_upstream 50 conn1 7 = Some (Inr True, conn2)"
    and c2: "tables conn2 = tables conn1"
      "game_series_links conn2 =
         insert_or_ignore (related_link_conflict (related_links_keyed (tables conn1)))
           (7, ''Sample II'', ''https://rawg.io/games/sample-ii'') (game_series_links conn1)"
      "game_developers conn2 = game_developers conn1"
      "game_publishers conn2 = game_publishers conn1"
      "game_tags conn2 = game_tags conn1"
      "game_genres conn2 = game_genres conn1"
      "game_platforms conn2 = game_platforms conn1"
      "game_additions_links conn2 = game_additions_links conn1"
      "game_stores conn2 = game_stores conn1"
      "media conn2 = media conn1"
      "screenshots conn2 = screenshots conn1"
      "game_suggestions conn2 = game_suggestions conn1"
    using series_run [of conn1] by blast
  have "relation_counts conn1 = [0, 0, 0, 0, 0, 1, 0, 0, 0, 0, 0]"
    by (simp add: relation_counts_def c1 empty_db_def ensure_schema_tables_def
        insert_or_ignore_def related_link_conflict_def)
  moreover have "relation_counts conn2 = [0, 0, 0, 0, 0, 1, 0, 0, 0, 0, 0]"
    by (simp add: relation_counts_def c2 c1 empty_db_def ensure_schema_tables_def
        insert_or_ignore_def related_link_conflict_def)
  ultimately show "\<exists>conn1 conn2.
        enrich_one series_upstream 50 empty_db 7 = Some (Inr True, conn1)
        \<and> enrich_one series_upstream 50 conn1 7 = Some (Inr True, conn2)
        \<and> relation_counts conn1 = [0, 0, 0, 0, 0, 1, 0, 0, 0, 0, 0]
        \<and> relation_counts conn2 = [0, 0, 0, 0, 0, 1, 0, 0, 0, 0, 0]"
    using r1 r2 by blast
qed

end
